theory Spec2Isabelle
  imports Complex_Main "HOL-Library.Multiset"
begin

section \<open>HTTP, exceptions and the request log\<close>

text \<open>
  A value thrown by JavaScript code. The handlers test \<^verbatim>\<open>error instanceof Error\<close> and
  read \<^verbatim>\<open>error.message\<close>, so a thrown value is either an \<^verbatim>\<open>Error\<close> object with its
  message, or something else.
\<close>

datatype thrown = Error string | NonError

text \<open>\<^verbatim>\<open>error instanceof Error ? error.message : 'Unknown error'\<close>\<close>

definition error_message :: "thrown \<Rightarrow> string" where
  "error_message e = (case e of Error m \<Rightarrow> m | NonError \<Rightarrow> ''Unknown error'')"

text \<open>
  A response as \<^verbatim>\<open>fetch\<close> delivers it: the status, the body text (\<^verbatim>\<open>response.text()\<close>)
  and what \<^verbatim>\<open>response.json()\<close> gives, which throws on a body that does not parse.
  A body that parses is taken to have the shape the endpoint documents (type \<open>'a\<close>).
\<close>

datatype 'a response =
  Response (status: nat) (text_body: string) (json_body: "thrown + 'a")

text \<open>\<^verbatim>\<open>response.ok\<close>: the status is in the range 200 to 299.\<close>

definition ok :: "'a response \<Rightarrow> bool" where
  "ok r = (200 \<le> status r \<and> status r \<le> 299)"

text \<open>
  A remote endpoint. Its answer may depend on the URL and on every request made before
  (the log, oldest first), so a server with state of its own is covered. \<open>Inl e\<close> is a
  \<^verbatim>\<open>fetch\<close> that rejects with \<open>e\<close> (a network error).
\<close>

type_synonym 'a endpoint = "string list \<Rightarrow> string \<Rightarrow> thrown + 'a response"

definition fetch :: "'a endpoint \<Rightarrow> string \<Rightarrow> string list \<Rightarrow> (thrown + 'a response) \<times> string list" where
  "fetch api url reqs = (api reqs url, reqs @ [url])"

text \<open>The answers an endpoint gives to a sequence of requests made one after the other.\<close>

fun replay :: "'a endpoint \<Rightarrow> string list \<Rightarrow> string list \<Rightarrow> (thrown + 'a response) list" where
  "replay api reqs [] = []"
| "replay api reqs (u # us) = api reqs u # replay api (reqs @ [u]) us"

subsection \<open>Strings\<close>

text \<open>Decimal rendering of a number inside a template literal.\<close>

fun show_nat :: "nat \<Rightarrow> string" where
  "show_nat n =
     (if n < 10 then [''0123456789'' ! n]
      else show_nat (n div 10) @ [''0123456789'' ! (n mod 10)])"

declare show_nat.simps [simp del]

text \<open>
  \<^verbatim>\<open>encodeURIComponent\<close> on a string of UTF-8 bytes: every byte is percent-encoded
  except letters, digits and \<^verbatim>\<open>- _ . ! ~ * ' ( )\<close>.
\<close>

definition unreserved :: "char \<Rightarrow> bool" where
  "unreserved c =
     (c \<in> set ''ABCDEFGHIJKLMNOPQRSTUVWXYZabcdefghijklmnopqrstuvwxyz0123456789-_.!~*()''
      \<or> c = CHR 0x27)"

definition percent :: "char \<Rightarrow> string" where
  "percent c =
     [CHR ''%'', ''0123456789ABCDEF'' ! (of_char c div 16), ''0123456789ABCDEF'' ! (of_char c mod 16)]"

definition encodeURIComponent :: "string \<Rightarrow> string" where
  "encodeURIComponent s = concat (map (\<lambda>c. if unreserved c then [c] else percent c) s)"

text \<open>Truthiness of a string: only the empty string is falsy.\<close>

definition truthy :: "string \<Rightarrow> bool" where
  "truthy s = (s \<noteq> [])"

text \<open>\<^verbatim>\<open>x || null\<close> on an optional string: an absent, null or empty value gives null.\<close>

definition or_null :: "string option \<Rightarrow> string option" where
  "or_null x = (case x of None \<Rightarrow> None | Some s \<Rightarrow> if truthy s then Some s else None)"

section \<open>The refresh job: constants and data\<close>

definition OPENSEA_API_BASE :: string where
  "OPENSEA_API_BASE = ''https://api.opensea.io/api/v2''"

definition STAKING_API_BASE :: string where
  "STAKING_API_BASE = ''https://staking.youmio.ai/api''"

datatype NFTType = Mythic | Ancient

text \<open>The key of \<^verbatim>\<open>COLLECTION_SLUGS\<close> as the string it is at run time.\<close>

definition nftType_name :: "NFTType \<Rightarrow> string" where
  "nftType_name t = (case t of Mythic \<Rightarrow> ''Mythic'' | Ancient \<Rightarrow> ''Ancient'')"

definition COLLECTION_SLUGS :: "NFTType \<Rightarrow> string" where
  "COLLECTION_SLUGS t = (case t of Mythic \<Rightarrow> ''mythicseed'' | Ancient \<Rightarrow> ''ancientseed'')"

text \<open>\<^verbatim>\<open>Object.entries(COLLECTION_SLUGS)\<close>, in the order of the object literal.\<close>

definition COLLECTION_ENTRIES :: "(NFTType \<times> string) list" where
  "COLLECTION_ENTRIES = [(Mythic, COLLECTION_SLUGS Mythic), (Ancient, COLLECTION_SLUGS Ancient)]"

record NFTItem =
  "identifier" :: string
  image_url :: "string option"
  opensea_url :: "string option"

text \<open>
  One page of a paginated marketplace endpoint: the items (\<^verbatim>\<open>data.nfts\<close> or
  \<^verbatim>\<open>data.listings\<close>, which may be missing) and the cursor \<^verbatim>\<open>data.next\<close>.
\<close>

record 'a page =
  items :: "'a list option"
  "next" :: "string option"

text \<open>The body of the staking API: each of the three fields may be missing or null.\<close>

record points_data =
  points :: "int option"
  totalPoints :: "int option"
  stakingPoints :: "int option"

section \<open>fetchPointsBatch\<close>

text \<open>\<^verbatim>\<open>data.points ?? data.totalPoints ?? data.stakingPoints ?? 0\<close>\<close>

definition coalesce_points :: "points_data \<Rightarrow> int" where
  "coalesce_points d =
     (case points d of Some p \<Rightarrow> p
      | None \<Rightarrow> (case totalPoints d of Some p \<Rightarrow> p
        | None \<Rightarrow> (case stakingPoints d of Some p \<Rightarrow> p | None \<Rightarrow> 0)))"

text \<open>
  What the body of the \<^verbatim>\<open>async (tokenId) => { try ... catch ... }\<close> callback stores for
  one answer of the staking API: the coalesced field on an ok answer, and 0 on a
  non-ok answer, on a rejected \<^verbatim>\<open>fetch\<close> and on a body that does not parse.
\<close>

definition points_of_answer :: "thrown + points_data response \<Rightarrow> int" where
  "points_of_answer a =
     (case a of
        Inl e \<Rightarrow> 0
      | Inr res \<Rightarrow>
          if ok res then (case json_body res of Inl e \<Rightarrow> 0 | Inr d \<Rightarrow> coalesce_points d)
          else 0)"

definition points_url :: "string \<Rightarrow> NFTType \<Rightarrow> string" where
  "points_url tokenId nftType =
     STAKING_API_BASE @ ''/seeds/points?id='' @ encodeURIComponent tokenId
       @ ''&type='' @ encodeURIComponent (nftType_name nftType)"

text \<open>
  \<^verbatim>\<open>pointsById\<close> is a plain object (\<^verbatim>\<open>{}\<close>): its own properties are a map from keys to
  numbers, and it inherits the properties of \<^verbatim>\<open>Object.prototype\<close>. An assignment
  \<^verbatim>\<open>pointsById[key] = v\<close> creates or overwrites the own property, except for the key
  \<^verbatim>\<open>__proto__\<close>: that name is an inherited accessor, the assignment calls its setter, and
  the setter ignores a value that is a number, so no own property is created.
\<close>

definition object_set :: "string \<Rightarrow> int \<Rightarrow> (string \<rightharpoonup> int) \<Rightarrow> (string \<rightharpoonup> int)" where
  "object_set key v obj = (if key = ''__proto__'' then obj else obj(key \<mapsto> v))"

text \<open>
  A read \<^verbatim>\<open>pointsById[key]\<close> gives the own property when there is one, else the property
  of \<^verbatim>\<open>Object.prototype\<close> with that name (an object or a function, never null or
  undefined), else undefined.
\<close>

datatype property = Undefined | Number int | Inherited string

definition Object_prototype_names :: "string list" where
  "Object_prototype_names =
     [''__defineGetter__'', ''__defineSetter__'', ''__lookupGetter__'', ''__lookupSetter__'',
      ''__proto__'', ''constructor'', ''hasOwnProperty'', ''isPrototypeOf'',
      ''propertyIsEnumerable'', ''toLocaleString'', ''toString'', ''valueOf'']"

definition object_get :: "(string \<rightharpoonup> int) \<Rightarrow> string \<Rightarrow> property" where
  "object_get obj key =
     (case obj key of
        Some v \<Rightarrow> Number v
      | None \<Rightarrow> if key \<in> set Object_prototype_names then Inherited key else Undefined)"

text \<open>
  The callback for one token id, on the state it touches: the object \<^verbatim>\<open>pointsById\<close>
  (its own properties) and the request log. It never throws.
\<close>

definition fetchPointsOne ::
  "points_data endpoint \<Rightarrow> NFTType \<Rightarrow> string
     \<Rightarrow> (string \<rightharpoonup> int) \<times> string list \<Rightarrow> (string \<rightharpoonup> int) \<times> string list" where
  "fetchPointsOne api nftType tokenId st =
     (case st of (pointsById, reqs) \<Rightarrow>
        (case fetch api (points_url tokenId nftType) reqs of (a, reqs') \<Rightarrow>
           (object_set tokenId (points_of_answer a) pointsById, reqs')))"

text \<open>
  \<^verbatim>\<open>for (let i = 0; i < tokenIds.length; i += concurrency) chunks.push(tokenIds.slice(i, i + concurrency))\<close>
  with \<^verbatim>\<open>concurrency = 10\<close>.
\<close>

function chunks_from :: "nat \<Rightarrow> 'a list \<Rightarrow> 'a list list" where
  "chunks_from i tokenIds =
     (if i < length tokenIds then take 10 (drop i tokenIds) # chunks_from (i + 10) tokenIds
      else [])"
  by pat_completeness auto
termination
  by (relation "measure (\<lambda>(i, tokenIds). length tokenIds - i)") auto

declare chunks_from.simps [simp del]

text \<open>
  The chunks run one after the other. Inside a chunk \<^verbatim>\<open>Promise.all\<close> starts the requests
  in list order; the model also completes them in list order (the order of completion
  matters only for a token id that occurs twice in one chunk).
\<close>

definition fetchPointsBatch ::
  "points_data endpoint \<Rightarrow> string list \<Rightarrow> NFTType \<Rightarrow> string list
     \<Rightarrow> (string \<rightharpoonup> int) \<times> string list" where
  "fetchPointsBatch api tokenIds nftType reqs =
     fold (\<lambda>chunk st. fold (fetchPointsOne api nftType) chunk st)
       (chunks_from 0 tokenIds) (Map.empty, reqs)"

section \<open>Marketplace client\<close>

text \<open>
  \<^verbatim>\<open>fetchAllNFTs\<close>: the \<^verbatim>\<open>do ... while (nextCursor)\<close> loop, one call of the function per
  iteration, on the local variables \<^verbatim>\<open>allNFTs\<close>, \<^verbatim>\<open>nextCursor\<close>, \<^verbatim>\<open>pageCount\<close>
  and the request log. \<^verbatim>\<open>maxPages = 50\<close>, \<^verbatim>\<open>limit = 200\<close>. A \<^verbatim>\<open>fetch\<close> that rejects
  and a body that does not parse leave the function as exceptions (\<open>Inl\<close>).
\<close>

function fetchAllNFTs_loop ::
  "NFTItem page endpoint \<Rightarrow> string \<Rightarrow> NFTItem list \<Rightarrow> string option \<Rightarrow> nat \<Rightarrow> string list
     \<Rightarrow> (thrown + NFTItem list) \<times> string list" where
  "fetchAllNFTs_loop api collectionSlug allNFTs nextCursor pageCount reqs =
     (let pageCount = pageCount + 1;
          url = OPENSEA_API_BASE @ ''/collection/'' @ collectionSlug @ ''/nfts?limit='' @ show_nat 200;
          url = (case or_null nextCursor of Some c \<Rightarrow> url @ ''&next='' @ c | None \<Rightarrow> url)
      in case fetch api url reqs of (a, reqs) \<Rightarrow>
        (case a of
           Inl e \<Rightarrow> (Inl e, reqs)
         | Inr response \<Rightarrow>
             if \<not> ok response then (Inr allNFTs, reqs)
             else (case json_body response of
                Inl e \<Rightarrow> (Inl e, reqs)
              | Inr data \<Rightarrow>
                  let nfts = (case items data of None \<Rightarrow> [] | Some ns \<Rightarrow> ns);
                      allNFTs = allNFTs @ map (\<lambda>n. \<lparr>identifier = identifier n,
                                  image_url = image_url n, opensea_url = opensea_url n\<rparr>) nfts;
                      nextCursor = or_null (next data)
                  in if pageCount \<ge> 50 then (Inr allNFTs, reqs)
                     else if nextCursor \<noteq> None
                       then fetchAllNFTs_loop api collectionSlug allNFTs nextCursor pageCount reqs
                     else (Inr allNFTs, reqs))))"
  by pat_completeness auto
termination
  by (relation "measure (\<lambda>(api, collectionSlug, allNFTs, nextCursor, pageCount, reqs). 50 - pageCount)") auto

declare fetchAllNFTs_loop.simps [simp del]

definition fetchAllNFTs ::
  "NFTItem page endpoint \<Rightarrow> string \<Rightarrow> string list \<Rightarrow> (thrown + NFTItem list) \<times> string list" where
  "fetchAllNFTs api collectionSlug reqs = fetchAllNFTs_loop api collectionSlug [] None 0 reqs"

text \<open>
  A marketplace listing (\<^verbatim>\<open>OpenSeaListing\<close>). The optional chains are flattened:
  \<open>price\<close> is \<^verbatim>\<open>listing.price?.current\<close> and \<open>offer\<close> is
  \<^verbatim>\<open>listing.protocol_data?.parameters?.offer\<close>, \<open>None\<close> when any link is missing.
\<close>

record offer_item =
  identifierOrCriteria :: string
  token :: string
  imageUrl :: "string option"

record price_current =
  "value" :: string
  currency :: string

record OpenSeaListing =
  price :: "price_current option"
  offer :: "offer_item list option"

text \<open>\<^verbatim>\<open>listing.protocol_data?.parameters?.offer?.[0]?.identifierOrCriteria\<close>\<close>

definition offered_id :: "'a OpenSeaListing_scheme \<Rightarrow> string option" where
  "offered_id listing =
     (case offer listing of None \<Rightarrow> None | Some [] \<Rightarrow> None
      | Some (x # xs) \<Rightarrow> Some (identifierOrCriteria x))"

text \<open>The \<^verbatim>\<open>for (const listing of listings)\<close> loop of \<^verbatim>\<open>fetchListedTokenIds\<close>.\<close>

definition add_listed :: "OpenSeaListing list \<Rightarrow> string set \<Rightarrow> string set" where
  "add_listed listings listedIds =
     fold (\<lambda>listing ids. case or_null (offered_id listing) of Some tokenId \<Rightarrow> insert tokenId ids
                          | None \<Rightarrow> ids) listings listedIds"

text \<open>\<^verbatim>\<open>fetchListedTokenIds\<close>, with \<^verbatim>\<open>maxPages = 20\<close>.\<close>

function fetchListedTokenIds_loop ::
  "OpenSeaListing page endpoint \<Rightarrow> string \<Rightarrow> string set \<Rightarrow> string option \<Rightarrow> nat \<Rightarrow> string list
     \<Rightarrow> (thrown + string set) \<times> string list" where
  "fetchListedTokenIds_loop api collectionSlug listedIds nextCursor pageCount reqs =
     (let pageCount = pageCount + 1;
          url = OPENSEA_API_BASE @ ''/listings/collection/'' @ collectionSlug @ ''/all'';
          url = (case or_null nextCursor of Some c \<Rightarrow> url @ ''?next='' @ c | None \<Rightarrow> url)
      in case fetch api url reqs of (a, reqs) \<Rightarrow>
        (case a of
           Inl e \<Rightarrow> (Inl e, reqs)
         | Inr response \<Rightarrow>
             if \<not> ok response then (Inr listedIds, reqs)
             else (case json_body response of
                Inl e \<Rightarrow> (Inl e, reqs)
              | Inr data \<Rightarrow>
                  let listings = (case items data of None \<Rightarrow> [] | Some ls \<Rightarrow> ls);
                      listedIds = add_listed listings listedIds;
                      nextCursor = or_null (next data)
                  in if pageCount \<ge> 20 then (Inr listedIds, reqs)
                     else if nextCursor \<noteq> None
                       then fetchListedTokenIds_loop api collectionSlug listedIds nextCursor pageCount reqs
                     else (Inr listedIds, reqs))))"
  by pat_completeness auto
termination
  by (relation "measure (\<lambda>(api, collectionSlug, listedIds, nextCursor, pageCount, reqs). 20 - pageCount)") auto

declare fetchListedTokenIds_loop.simps [simp del]

definition fetchListedTokenIds ::
  "OpenSeaListing page endpoint \<Rightarrow> string \<Rightarrow> string list \<Rightarrow> (thrown + string set) \<times> string list" where
  "fetchListedTokenIds api collectionSlug reqs =
     fetchListedTokenIds_loop api collectionSlug {} None 0 reqs"

section \<open>The cache tables and the refresh handler\<close>

text \<open>A row of \<^verbatim>\<open>leaderboard_entries\<close>, unique on \<^verbatim>\<open>(collection_slug, token_id)\<close>.\<close>

record leaderboard_row =
  collection_slug :: string
  nft_type :: NFTType
  token_id :: string
  points :: property
  image_url :: "string option"
  opensea_url :: "string option"
  is_listed :: bool

type_synonym entries_table = "string \<times> string \<rightharpoonup> leaderboard_row"

text \<open>The row of \<^verbatim>\<open>leaderboard_meta\<close>; a column that holds null is \<open>None\<close>.\<close>

record meta_row =
  status :: string
  last_started_at :: "string option"
  last_completed_at :: "string option"
  last_error :: "string option"

type_synonym meta_table = "string \<rightharpoonup> meta_row"

text \<open>Everything the handler reads and writes outside its own variables.\<close>

record world =
  requests :: "string list"
  leaderboard_entries :: entries_table
  leaderboard_meta :: meta_table

text \<open>
  Everything the handler is given from outside: the three remote endpoints, whether the
  database rejects a batch of rows (the \<^verbatim>\<open>error\<close> of the upsert), and what
  \<^verbatim>\<open>new Date().toISOString()\<close> reads at the start and at the completion of the job.
\<close>

record env =
  nfts_api :: "NFTItem page endpoint"
  listings_api :: "OpenSeaListing page endpoint"
  staking_api :: "points_data endpoint"
  upsert_rejected :: "entries_table \<Rightarrow> leaderboard_row list \<Rightarrow> bool"
  started_at :: string
  completed_at :: string

text \<open>
  An upsert with conflict target \<^verbatim>\<open>collection_slug,token_id\<close>: each row replaces the row
  with its key, or is inserted.
\<close>

definition upsert_rows :: "leaderboard_row list \<Rightarrow> entries_table \<Rightarrow> entries_table" where
  "upsert_rows rows tbl = fold (\<lambda>r t. t((collection_slug r, token_id r) \<mapsto> r)) rows tbl"

text \<open>
  An upsert into \<^verbatim>\<open>leaderboard_meta\<close> with conflict target \<^verbatim>\<open>cache_key\<close>: the columns of
  the payload (the function \<open>set_columns\<close>) are written, the other columns of an
  existing row are kept, and those of a new row are null. Every payload of the handler
  sets \<open>status\<close>.
\<close>

definition upsert_meta :: "string \<Rightarrow> (meta_row \<Rightarrow> meta_row) \<Rightarrow> meta_table \<Rightarrow> meta_table" where
  "upsert_meta cache_key set_columns tbl =
     tbl(cache_key \<mapsto> set_columns (case tbl cache_key of
        None \<Rightarrow> \<lparr>status = [], last_started_at = None, last_completed_at = None, last_error = None\<rparr>
      | Some row \<Rightarrow> row))"

text \<open>
  The row built for one NFT inside \<^verbatim>\<open>batch.map\<close>. \<^verbatim>\<open>pointsById[nft.identifier] ?? 0\<close> gives
  0 only when the read is undefined.
\<close>

definition make_row ::
  "string \<Rightarrow> NFTType \<Rightarrow> (string \<rightharpoonup> int) \<Rightarrow> string set \<Rightarrow> NFTItem \<Rightarrow> leaderboard_row" where
  "make_row collectionSlug nftType pointsById listedIds nft =
     \<lparr>collection_slug = collectionSlug,
      nft_type = nftType,
      token_id = identifier nft,
      points = (case object_get pointsById (identifier nft) of Undefined \<Rightarrow> Number 0 | p \<Rightarrow> p),
      image_url = NFTItem.image_url nft,
      opensea_url = NFTItem.opensea_url nft,
      is_listed = (identifier nft \<in> listedIds)\<rparr>"

text \<open>
  \<^verbatim>\<open>for (let i = 0; i < nfts.length; i += batchSize)\<close> with \<^verbatim>\<open>batchSize = 100\<close>: a batch the
  database rejects is logged and skipped, and the loop goes on.
\<close>

function upsert_batches ::
  "env \<Rightarrow> (NFTItem \<Rightarrow> leaderboard_row) \<Rightarrow> NFTItem list \<Rightarrow> nat \<Rightarrow> entries_table \<Rightarrow> entries_table" where
  "upsert_batches e mk nfts i tbl =
     (if i < length nfts then
        let batch = take 100 (drop i nfts);
            rows = map mk batch;
            tbl = (if upsert_rejected e tbl rows then tbl else upsert_rows rows tbl)
        in upsert_batches e mk nfts (i + 100) tbl
      else tbl)"
  by pat_completeness auto
termination
  by (relation "measure (\<lambda>(e, mk, nfts, i, tbl). length nfts - i)") auto

declare upsert_batches.simps [simp del]

text \<open>The body of the \<^verbatim>\<open>for\<close> loop over the collections, for one collection.\<close>

definition process_collection :: "env \<Rightarrow> NFTType \<Rightarrow> string \<Rightarrow> world \<Rightarrow> (thrown + unit) \<times> world" where
  "process_collection e nftType collectionSlug w =
     (case fetchAllNFTs (nfts_api e) collectionSlug (requests w) of
        (Inl err, reqs) \<Rightarrow> (Inl err, w\<lparr>requests := reqs\<rparr>)
      | (Inr nfts, reqs) \<Rightarrow>
          (case fetchListedTokenIds (listings_api e) collectionSlug reqs of
             (Inl err, reqs) \<Rightarrow> (Inl err, w\<lparr>requests := reqs\<rparr>)
           | (Inr listedIds, reqs) \<Rightarrow>
               let tokenIds = filter truthy (map identifier nfts) in
               (case fetchPointsBatch (staking_api e) tokenIds nftType reqs of
                  (pointsById, reqs) \<Rightarrow>
                    (Inr (), w\<lparr>requests := reqs,
                       leaderboard_entries :=
                         upsert_batches e (make_row collectionSlug nftType pointsById listedIds)
                           nfts 0 (leaderboard_entries w)\<rparr>))))"

text \<open>The \<^verbatim>\<open>for\<close> loop over the collections: an exception leaves the loop.\<close>

fun process_all :: "env \<Rightarrow> (NFTType \<times> string) list \<Rightarrow> world \<Rightarrow> (thrown + unit) \<times> world" where
  "process_all e [] w = (Inr (), w)"
| "process_all e ((nftType, collectionSlug) # rest) w =
     (case process_collection e nftType collectionSlug w of
        (Inl err, w') \<Rightarrow> (Inl err, w')
      | (Inr u, w') \<Rightarrow> process_all e rest w')"

text \<open>
  What a handler answers: the status (200 when the source gives none) and the JSON body.
  The headers are the same constant in every answer and are left out.
\<close>

datatype body =
    NoBody
  | Success
  | ErrorBody string
  | ErrorDetails string string
  | Listings "OpenSeaListing list"

record reply =
  reply_status :: nat
  reply_body :: body

definition cacheKey :: string where
  "cacheKey = ''leaderboard_v1''"

text \<open>
  The three writes of the status row: \<^verbatim>\<open>// Mark as running\<close> before the \<^verbatim>\<open>try\<close>,
  \<^verbatim>\<open>// Mark as completed\<close> at its end, and the write of the \<^verbatim>\<open>catch\<close>. Each payload names
  the columns it sets. The database is taken to apply them; the handler does not look
  at their result.
\<close>

definition mark_running :: "env \<Rightarrow> world \<Rightarrow> world" where
  "mark_running e w =
     w\<lparr>leaderboard_meta := upsert_meta cacheKey
          (\<lambda>row. row\<lparr>status := ''running'', last_started_at := Some (started_at e)\<rparr>)
          (leaderboard_meta w)\<rparr>"

definition mark_completed :: "env \<Rightarrow> world \<Rightarrow> world" where
  "mark_completed e w =
     w\<lparr>leaderboard_meta := upsert_meta cacheKey
          (\<lambda>row. row\<lparr>status := ''idle'', last_completed_at := Some (completed_at e),
                       last_error := None\<rparr>)
          (leaderboard_meta w)\<rparr>"

definition mark_error :: "thrown \<Rightarrow> world \<Rightarrow> world" where
  "mark_error error w =
     w\<lparr>leaderboard_meta := upsert_meta cacheKey
          (\<lambda>row. row\<lparr>status := ''error'', last_error := Some (error_message error)\<rparr>)
          (leaderboard_meta w)\<rparr>"

text \<open>The handler of \<^verbatim>\<open>leaderboard-refresh\<close>.\<close>

definition refresh_handler :: "env \<Rightarrow> string \<Rightarrow> world \<Rightarrow> reply \<times> world" where
  "refresh_handler e method w =
     (if method = ''OPTIONS'' then (\<lparr>reply_status = 200, reply_body = NoBody\<rparr>, w)
      else
        let w = mark_running e w
        in case process_all e COLLECTION_ENTRIES w of
             (Inr u, w) \<Rightarrow> (\<lparr>reply_status = 200, reply_body = Success\<rparr>, mark_completed e w)
           | (Inl error, w) \<Rightarrow>
               (\<lparr>reply_status = 500, reply_body = ErrorBody ''Refresh failed''\<rparr>, mark_error error w))"

section \<open>The handler of opensea-listings\<close>

text \<open>
  A request: its method and what \<^verbatim>\<open>await req.json()\<close> followed by the destructuring
  \<^verbatim>\<open>{ collectionSlug }\<close> gives. \<open>Inl e\<close>: an exception, raised by \<^verbatim>\<open>req.json()\<close> on a body that
  is empty or no JSON, or by the destructuring of a body that is \<^verbatim>\<open>null\<close>. \<open>Inr\<close>: the field
  of a body that parses to another value, \<open>None\<close> when the field is missing.
\<close>

record request =
  req_method :: string
  req_json :: "thrown + string option"

text \<open>
  \<^verbatim>\<open>new Response(body, { status })\<close> with a body that is not null, as the runtime of
  \<^verbatim>\<open>Deno.serve\<close> constructs it: a status outside 200 to 599 (other than 101) raises a
  \<^verbatim>\<open>RangeError\<close>, and a null body status (101, 204, 205, 304) raises a \<^verbatim>\<open>TypeError\<close>. The
  messages are the runtime's. The other answers of the two handlers carry the constant
  statuses 200, 400 and 500, which the constructor accepts.
\<close>

definition new_Response :: "body \<Rightarrow> nat \<Rightarrow> thrown + reply" where
  "new_Response b status_code =
     (if (status_code < 200 \<or> 599 < status_code) \<and> status_code \<noteq> 101 then
        Inl (Error (''The status provided ('' @ show_nat status_code
                      @ '') is not equal to 101 and outside the range [200, 599]''))
      else if status_code = 101 \<or> status_code = 204 \<or> status_code = 205 \<or> status_code = 304 then
        Inl (Error ''Response with null body status cannot have body'')
      else Inr \<lparr>reply_status = status_code, reply_body = b\<rparr>)"

text \<open>
  The handler. The answer to a marketplace status that is not ok is constructed inside
  the \<^verbatim>\<open>try\<close>, so an exception of the constructor is answered by the \<^verbatim>\<open>catch\<close>.
\<close>

definition listings_handler ::
  "OpenSeaListing page endpoint \<Rightarrow> request \<Rightarrow> string list \<Rightarrow> reply \<times> string list" where
  "listings_handler api req reqs =
     (if req_method req = ''OPTIONS'' then (\<lparr>reply_status = 200, reply_body = NoBody\<rparr>, reqs)
      else case req_json req of
        Inl error \<Rightarrow> (\<lparr>reply_status = 500, reply_body = ErrorBody (error_message error)\<rparr>, reqs)
      | Inr slug \<Rightarrow>
          (case or_null slug of
             None \<Rightarrow> (\<lparr>reply_status = 400, reply_body = ErrorBody ''Collection slug is required''\<rparr>, reqs)
           | Some collectionSlug \<Rightarrow>
               let url = OPENSEA_API_BASE @ ''/listings/collection/'' @ collectionSlug @ ''/all'' in
               (case fetch api url reqs of (a, reqs) \<Rightarrow>
                  (case a of
                     Inl error \<Rightarrow>
                       (\<lparr>reply_status = 500, reply_body = ErrorBody (error_message error)\<rparr>, reqs)
                   | Inr response \<Rightarrow>
                       if \<not> ok response then
                         (case new_Response
                                 (ErrorDetails
                                    (''OpenSea API error: '' @ show_nat (response.status response))
                                    (text_body response))
                                 (response.status response) of
                            Inl error \<Rightarrow>
                              (\<lparr>reply_status = 500, reply_body = ErrorBody (error_message error)\<rparr>, reqs)
                          | Inr answer \<Rightarrow> (answer, reqs))
                       else (case json_body response of
                          Inl error \<Rightarrow>
                            (\<lparr>reply_status = 500, reply_body = ErrorBody (error_message error)\<rparr>, reqs)
                        | Inr data \<Rightarrow>
                            (\<lparr>reply_status = 200,
                              reply_body = Listings (case items data of None \<Rightarrow> [] | Some ls \<Rightarrow> ls)\<rparr>,
                             reqs))))))"

section \<open>The client library: staking points with a cache\<close>

text \<open>
  \<^verbatim>\<open>fetchStakingPoints\<close> on the state it touches: the module-level \<^verbatim>\<open>pointsCache\<close> and
  the request log. \<^verbatim>\<open>data.points || 0\<close> reads the one field \<^verbatim>\<open>points\<close>; an absent, null
  or zero value gives 0. Every path after the cache check is inside \<^verbatim>\<open>try\<close>, and the
  \<^verbatim>\<open>catch\<close> returns 0, so the function returns a number on every path.
\<close>

definition fetchStakingPoints ::
  "points_data endpoint \<Rightarrow> string \<Rightarrow> NFTType \<Rightarrow> (string \<rightharpoonup> int) \<times> string list
     \<Rightarrow> int \<times> (string \<rightharpoonup> int) \<times> string list" where
  "fetchStakingPoints api tokenId nftType st =
     (case st of (pointsCache, reqs) \<Rightarrow>
        let cacheKey = nftType_name nftType @ ''_'' @ tokenId in
        (case pointsCache cacheKey of
           Some cached \<Rightarrow> (cached, pointsCache, reqs)
         | None \<Rightarrow>
             let url = STAKING_API_BASE @ ''/seeds/points?id='' @ tokenId
                         @ ''&type='' @ nftType_name nftType in
             (case fetch api url reqs of (a, reqs) \<Rightarrow>
                (case a of
                   Inl error \<Rightarrow> (0, pointsCache(cacheKey \<mapsto> 0), reqs)
                 | Inr response \<Rightarrow>
                     if \<not> ok response then (0, pointsCache(cacheKey \<mapsto> 0), reqs)
                     else (case json_body response of
                        Inl error \<Rightarrow> (0, pointsCache(cacheKey \<mapsto> 0), reqs)
                      | Inr data \<Rightarrow>
                          let points = (case points_data.points data of
                                          None \<Rightarrow> 0 | Some p \<Rightarrow> if p = 0 then 0 else p)
                          in (points, pointsCache(cacheKey \<mapsto> points), reqs))))))"

section \<open>The client library: sorting listings\<close>

text \<open>
  A JavaScript number, as far as the comparators need it: NaN, the two infinities and
  the finite values, taken as exact rationals (rounding and the sign of zero are not
  modelled).
\<close>

datatype number = NaN | Infinity bool | Num rat

text \<open>\<open>x - y\<close> and \<open>x / y\<close>; \<open>Infinity True\<close> is the positive infinity.\<close>

definition minus_number :: "number \<Rightarrow> number \<Rightarrow> number" where
  "minus_number x y =
     (case (x, y) of
        (Num a, Num b) \<Rightarrow> Num (a - b)
      | (Num a, Infinity s) \<Rightarrow> Infinity (\<not> s)
      | (Infinity s, Num b) \<Rightarrow> Infinity s
      | (Infinity s, Infinity t) \<Rightarrow> if s = t then NaN else Infinity s
      | _ \<Rightarrow> NaN)"

definition divide_number :: "number \<Rightarrow> number \<Rightarrow> number" where
  "divide_number x y =
     (case (x, y) of
        (Num a, Num b) \<Rightarrow> if b \<noteq> 0 then Num (a / b) else if a = 0 then NaN else Infinity (0 < a)
      | (Num a, Infinity s) \<Rightarrow> Num 0
      | (Infinity s, Num b) \<Rightarrow> Infinity (s = (0 \<le> b))
      | _ \<Rightarrow> NaN)"

text \<open>\<open>x === 0\<close>\<close>

definition is_zero :: "number \<Rightarrow> bool" where
  "is_zero x = (case x of Num a \<Rightarrow> a = 0 | _ \<Rightarrow> False)"

text \<open>A listing with the fields the viewer adds (\<^verbatim>\<open>NFTWithMetadata\<close>).\<close>

record NFTWithMetadata = OpenSeaListing +
  tokenId :: "string option"
  nftType :: "NFTType option"
  stakingPoints :: "number option"
  cachedImageUrl :: "string option"

text \<open>
  \<^verbatim>\<open>getPriceValue\<close>. The builtin \<^verbatim>\<open>parseFloat\<close> is a parameter; it returns NaN on a string
  that is no number and does not throw, so the \<^verbatim>\<open>catch\<close> is never entered.
\<close>

definition getPriceValue :: "(string \<Rightarrow> number) \<Rightarrow> 'a OpenSeaListing_scheme \<Rightarrow> number" where
  "getPriceValue parseFloat listing =
     (case price listing of
        None \<Rightarrow> Num 0
      | Some current \<Rightarrow>
          if \<not> truthy (value current) then Num 0
          else divide_number (parseFloat (value current)) (Num 1000000000000000000))"

text \<open>\<^verbatim>\<open>calculatePointsPerPrice\<close>; \<^verbatim>\<open>listing.stakingPoints || 0\<close> turns undefined, 0 and NaN into 0.\<close>

definition calculatePointsPerPrice :: "(string \<Rightarrow> number) \<Rightarrow> NFTWithMetadata \<Rightarrow> number" where
  "calculatePointsPerPrice parseFloat listing =
     (let points = (case stakingPoints listing of
                      None \<Rightarrow> Num 0 | Some NaN \<Rightarrow> Num 0 | Some p \<Rightarrow> p);
          price = getPriceValue parseFloat listing
      in if is_zero price \<or> is_zero points then Num 0 else divide_number points price)"

text \<open>
  \<^verbatim>\<open>Array.prototype.sort(comparefn)\<close>. The sort is stable, and a comparator result that is
  NaN counts as 0, so \<open>a\<close> moves behind \<open>b\<close> only when \<open>comparefn(a, b) > 0\<close>. The model is
  the stable insertion sort; on a consistent comparator every stable sort gives the
  same array.
\<close>

definition positive :: "number \<Rightarrow> bool" where
  "positive x = (case x of Num a \<Rightarrow> 0 < a | Infinity s \<Rightarrow> s | NaN \<Rightarrow> False)"

fun sort_insert :: "('a \<Rightarrow> 'a \<Rightarrow> number) \<Rightarrow> 'a \<Rightarrow> 'a list \<Rightarrow> 'a list" where
  "sort_insert comparefn a [] = [a]"
| "sort_insert comparefn a (b # bs) =
     (if positive (comparefn a b) then b # sort_insert comparefn a bs else a # b # bs)"

definition array_sort :: "('a \<Rightarrow> 'a \<Rightarrow> number) \<Rightarrow> 'a list \<Rightarrow> 'a list" where
  "array_sort comparefn xs = foldr (sort_insert comparefn) xs []"

text \<open>
  Arrays live in a store: an array reference is an index into the list of all arrays,
  and a new array gets the next index. \<^verbatim>\<open>sortListings\<close> takes and returns references;
  \<^verbatim>\<open>[...listings]\<close> allocates the copy and \<^verbatim>\<open>sort\<close> overwrites the array it is called on.
  \<^verbatim>\<open>sortType\<close> is the string the caller passes, so the \<^verbatim>\<open>default\<close> case is there.
\<close>

type_synonym 'a store = "'a list list"

definition spread_copy :: "nat \<Rightarrow> 'a store \<Rightarrow> nat \<times> 'a store" where
  "spread_copy array st = (length st, st @ [st ! array])"

definition sort_in_place :: "('a \<Rightarrow> 'a \<Rightarrow> number) \<Rightarrow> nat \<Rightarrow> 'a store \<Rightarrow> nat \<times> 'a store" where
  "sort_in_place comparefn array st = (array, st[array := array_sort comparefn (st ! array)])"

definition sortListings ::
  "(string \<Rightarrow> number) \<Rightarrow> nat \<Rightarrow> string \<Rightarrow> NFTWithMetadata store \<Rightarrow> nat \<times> NFTWithMetadata store" where
  "sortListings parseFloat listings sortType st =
     (case spread_copy listings st of (sorted_copy, st) \<Rightarrow>
        if sortType = ''bestdeal'' then
          sort_in_place (\<lambda>a b.
              let ratioA = calculatePointsPerPrice parseFloat a;
                  ratioB = calculatePointsPerPrice parseFloat b
              in minus_number ratioB ratioA) sorted_copy st
        else if sortType = ''highestprice'' then
          sort_in_place (\<lambda>a b. minus_number (getPriceValue parseFloat b) (getPriceValue parseFloat a))
            sorted_copy st
        else if sortType = ''lowestprice'' then
          sort_in_place (\<lambda>a b. minus_number (getPriceValue parseFloat a) (getPriceValue parseFloat b))
            sorted_copy st
        else (sorted_copy, st))"

section \<open>Notions used in the statements\<close>

text \<open>
  How the two paging loops read one answer of the marketplace. \<open>continues\<close>: the
  answer is an ok page with a cursor that is neither null, absent nor empty, the only
  answer after which a loop asks for another page. \<open>page_items\<close>: the items an ok page
  contributes. \<open>failure\<close>: the exception the answer raises in the caller (a rejected
  \<^verbatim>\<open>fetch\<close>, or an ok answer whose body does not parse). \<open>page_cursor\<close>: the cursor kept
  for the next request.
\<close>

definition continues :: "thrown + 'a page response \<Rightarrow> bool" where
  "continues a =
     (case a of
        Inl e \<Rightarrow> False
      | Inr response \<Rightarrow>
          ok response \<and> (case json_body response of Inl e \<Rightarrow> False | Inr data \<Rightarrow> or_null (next data) \<noteq> None))"

definition page_items :: "thrown + 'a page response \<Rightarrow> 'a list" where
  "page_items a =
     (case a of
        Inl e \<Rightarrow> []
      | Inr response \<Rightarrow>
          if ok response then
            (case json_body response of
               Inl e \<Rightarrow> []
             | Inr data \<Rightarrow> (case items data of None \<Rightarrow> [] | Some xs \<Rightarrow> xs))
          else [])"

definition failure :: "thrown + 'a response \<Rightarrow> thrown option" where
  "failure a =
     (case a of
        Inl e \<Rightarrow> Some e
      | Inr response \<Rightarrow>
          if ok response then (case json_body response of Inl e \<Rightarrow> Some e | Inr data \<Rightarrow> None)
          else None)"

definition page_cursor :: "thrown + 'a page response \<Rightarrow> string option" where
  "page_cursor a =
     (case a of Inl e \<Rightarrow> None
      | Inr response \<Rightarrow> (case json_body response of Inl e \<Rightarrow> None | Inr data \<Rightarrow> or_null (next data)))"

text \<open>The URL of a page request, as each loop builds it from the cursor it holds.\<close>

definition nfts_page_url :: "string \<Rightarrow> string option \<Rightarrow> string" where
  "nfts_page_url collectionSlug nextCursor =
     (let url = OPENSEA_API_BASE @ ''/collection/'' @ collectionSlug @ ''/nfts?limit='' @ show_nat 200
      in case or_null nextCursor of Some c \<Rightarrow> url @ ''&next='' @ c | None \<Rightarrow> url)"

definition listings_page_url :: "string \<Rightarrow> string option \<Rightarrow> string" where
  "listings_page_url collectionSlug nextCursor =
     (let url = OPENSEA_API_BASE @ ''/listings/collection/'' @ collectionSlug @ ''/all''
      in case or_null nextCursor of Some c \<Rightarrow> url @ ''?next='' @ c | None \<Rightarrow> url)"

section \<open>Concrete environments\<close>

text \<open>An ok answer of the staking API whose body carries the field \<^verbatim>\<open>points\<close> only.\<close>

definition points_answer :: "int \<Rightarrow> thrown + points_data response" where
  "points_answer p =
     Inr (Response 200 [] (Inr \<lparr>points_data.points = Some p, totalPoints = None, stakingPoints = None\<rparr>))"

text \<open>A staking API that answers every request with \<^verbatim>\<open>{"points": -1}\<close>, and one with 5.\<close>

definition negative_api :: "points_data endpoint" where
  "negative_api h u = points_answer (- 1)"

definition five_api :: "points_data endpoint" where
  "five_api h u = points_answer 5"

text \<open>A marketplace that answers every request with an empty page and a cursor.\<close>

definition endless_nfts :: "NFTItem page endpoint" where
  "endless_nfts h u = Inr (Response 200 [] (Inr \<lparr>items = Some [], next = Some ''c''\<rparr>))"

definition endless_listings :: "OpenSeaListing page endpoint" where
  "endless_listings h u = Inr (Response 200 [] (Inr \<lparr>items = Some [], next = Some ''c''\<rparr>))"

text \<open>A world with empty tables, and an environment whose marketplace cannot be reached.\<close>

definition empty_world :: world where
  "empty_world = \<lparr>requests = [], leaderboard_entries = Map.empty, leaderboard_meta = Map.empty\<rparr>"

definition failing_env :: env where
  "failing_env =
     \<lparr>nfts_api = (\<lambda>h u. Inl (Error ''network down'')),
      listings_api = endless_listings,
      staking_api = five_api,
      upsert_rejected = (\<lambda>tbl rows. False),
      started_at = ''2024-01-01T00:00:00.000Z'',
      completed_at = ''2024-01-01T00:05:00.000Z''\<rparr>"

text \<open>
  The scenario of three tokens: the collection \<^verbatim>\<open>mythicseed\<close> holds the tokens A, B and C on
  one page, B alone is listed, and the staking API answers 5, 0 and 12. Every other
  collection cannot be fetched. The last world holds a status row of an earlier,
  completed run.
\<close>

definition seed :: "string \<Rightarrow> NFTItem" where
  "seed t = \<lparr>identifier = t, image_url = Some (''https://img.example/'' @ t), opensea_url = None\<rparr>"

definition listing_of :: "string \<Rightarrow> OpenSeaListing" where
  "listing_of t =
     \<lparr>price = None,
      offer = Some [\<lparr>identifierOrCriteria = t, token = ''0xabc'', imageUrl = None\<rparr>]\<rparr>"

definition scenario_nfts :: "NFTItem page endpoint" where
  "scenario_nfts h u =
     (if u = nfts_page_url ''mythicseed'' None
      then Inr (Response 200 [] (Inr \<lparr>items = Some [seed ''A'', seed ''B'', seed ''C''], next = None\<rparr>))
      else Inl (Error ''connection refused''))"

definition scenario_listings :: "OpenSeaListing page endpoint" where
  "scenario_listings h u =
     Inr (Response 200 [] (Inr \<lparr>items = Some [listing_of ''B''], next = None\<rparr>))"

definition scenario_staking :: "points_data endpoint" where
  "scenario_staking h u =
     (if u = points_url ''A'' Mythic then points_answer 5
      else if u = points_url ''C'' Mythic then points_answer 12
      else points_answer 0)"

definition scenario_env :: env where
  "scenario_env =
     \<lparr>nfts_api = scenario_nfts,
      listings_api = scenario_listings,
      staking_api = scenario_staking,
      upsert_rejected = (\<lambda>tbl rows. False),
      started_at = ''2024-01-01T00:00:00.000Z'',
      completed_at = ''2024-01-01T00:05:00.000Z''\<rparr>"

definition completed_world :: world where
  "completed_world =
     \<lparr>requests = [],
      leaderboard_entries = Map.empty,
      leaderboard_meta = [cacheKey \<mapsto>
        \<lparr>status = ''idle'', last_started_at = Some ''2023-12-31T00:00:00.000Z'',
         last_completed_at = Some ''2023-12-31T00:04:00.000Z'', last_error = None\<rparr>]\<rparr>"

text \<open>
  A marketplace that answers 404 with a body that is no JSON, one that answers 304
  with an empty body, and a staking API whose body carries the field \<^verbatim>\<open>totalPoints\<close>
  only.
\<close>

definition not_found_listings :: "OpenSeaListing page endpoint" where
  "not_found_listings h u = Inr (Response 404 ''not found'' (Inl (Error ''Unexpected token'')))"

definition not_modified_listings :: "OpenSeaListing page endpoint" where
  "not_modified_listings h u = Inr (Response 304 [] (Inl (Error ''Unexpected end of JSON input'')))"

definition total_points_api :: "points_data endpoint" where
  "total_points_api h u =
     Inr (Response 200 [] (Inr \<lparr>points_data.points = None, totalPoints = Some 7, stakingPoints = None\<rparr>))"

text \<open>
  A listing with a price in wei, and a \<^verbatim>\<open>parseFloat\<close> that knows the two prices used.
\<close>

definition priced :: "string \<Rightarrow> string \<Rightarrow> NFTWithMetadata" where
  "priced t wei =
     \<lparr>price = Some \<lparr>value = wei, currency = ''ETH''\<rparr>,
      offer = Some [\<lparr>identifierOrCriteria = t, token = ''0xabc'', imageUrl = None\<rparr>],
      tokenId = Some t, nftType = Some Mythic, stakingPoints = Some (Num 10), cachedImageUrl = None\<rparr>"

definition parse_two_prices :: "string \<Rightarrow> number" where
  "parse_two_prices s =
     (if s = ''1000000000000000000'' then Num 1000000000000000000
      else if s = ''2000000000000000000'' then Num 2000000000000000000
      else NaN)"

section \<open>Properties of fetchPointsBatch\<close>

lemma concat_chunks_from: "concat (chunks_from i xs) = drop i xs"
proof (induction i xs rule: chunks_from.induct)
  case (1 i xs)
  show ?case
  proof (cases "i < length xs")
    case True
    have "take 10 (drop i xs) @ drop (i + 10) xs = drop i xs"
      using append_take_drop_id[of 10 "drop i xs"] by (simp add: add.commute)
    then show ?thesis using True 1 by (subst chunks_from.simps) simp
  next
    case False
    then show ?thesis by (subst chunks_from.simps) simp
  qed
qed

lemma fold_chunks:
  "fold (\<lambda>chunk st. fold f chunk st) xss st = fold f (concat xss) st"
  by (induction xss arbitrary: st) simp_all

text \<open>Chunking changes nothing in the sequential model: the ids are looked up in list order.\<close>

lemma fetchPointsBatch_fold:
  "fetchPointsBatch api tokenIds ty reqs =
     fold (fetchPointsOne api ty) tokenIds (Map.empty, reqs)"
proof -
  have "fold (\<lambda>chunk st. fold (fetchPointsOne api ty) chunk st) (chunks_from 0 tokenIds)
        = fold (fetchPointsOne api ty) (concat (chunks_from 0 tokenIds))"
    by (rule ext) (rule fold_chunks)
  then show ?thesis by (simp add: fetchPointsBatch_def concat_chunks_from)
qed

lemma fetchPointsOne_pair:
  "fetchPointsOne api ty t (m, r) =
     (object_set t (points_of_answer (api r (points_url t ty))) m, r @ [points_url t ty])"
  by (simp add: fetchPointsOne_def fetch_def)

lemma fold_one_dom:
  "dom (fst (fold (fetchPointsOne api ty) ids (m, r))) = dom m \<union> (set ids - {''__proto__''})"
  by (induction ids arbitrary: m r) (auto simp: fetchPointsOne_pair object_set_def)

lemma fold_one_value:
  "fst (fold (fetchPointsOne api ty) ids (m, r)) t = Some v \<Longrightarrow>
     (m t = Some v \<and> (t \<notin> set ids \<or> t = ''__proto__''))
     \<or> (t \<in> set ids \<and> t \<noteq> ''__proto__''
          \<and> (\<exists>h. v = points_of_answer (api h (points_url t ty))))"
proof (induction ids arbitrary: m r)
  case Nil
  then show ?case by simp
next
  case (Cons a ids)
  from Cons.prems have
    "fst (fold (fetchPointsOne api ty) ids
       (object_set a (points_of_answer (api r (points_url a ty))) m, r @ [points_url a ty])) t = Some v"
    by (simp add: fetchPointsOne_pair)
  from Cons.IH[OF this] show ?case by (auto simp: object_set_def split: if_splits)
qed

lemma fold_one_reqs:
  "snd (fold (fetchPointsOne api ty) ids (m, r)) = r @ map (\<lambda>t. points_url t ty) ids"
  by (induction ids arbitrary: m r) (auto simp: fetchPointsOne_pair)

lemma points_of_points_answer: "points_of_answer (points_answer p) = p"
  by (simp add: points_of_answer_def points_answer_def ok_def coalesce_points_def)

text \<open>
  C1, as stated, fails twice. The value stored for a token id is whatever number the
  staking API sends, and nothing makes it non-negative: with the answer
  \<^verbatim>\<open>{"points": -1}\<close> the map holds \<open>-1\<close> for the id \<^verbatim>\<open>7\<close>. And the assignment for the id
  \<^verbatim>\<open>__proto__\<close> creates no property, so that input id has no entry.
\<close>

theorem fetchPointsBatch_negative_value:
  "fst (fetchPointsBatch negative_api [''7''] Mythic []) ''7'' = Some (- 1)
   \<and> fst (fetchPointsBatch five_api [''__proto__''] Mythic []) ''__proto__'' = None"
  by (simp add: fetchPointsBatch_fold fetchPointsOne_pair object_set_def negative_api_def
      points_of_points_answer)

text \<open>
  C1, amended: the map returned by \<^verbatim>\<open>fetchPointsBatch\<close> has entries for input token ids
  only, and every input id other than \<^verbatim>\<open>__proto__\<close> has its one entry, so none of them is
  missing; the value of an id is what the lookup callback computes from an answer of
  the staking API to the request for that id; when the API never sends a negative
  value, every value in the map is non-negative; and the callback computes 0 from a
  rejected request, from an answer that is not ok and from a body that does not parse,
  and the first non-null of \<^verbatim>\<open>points\<close>, \<^verbatim>\<open>totalPoints\<close>, \<^verbatim>\<open>stakingPoints\<close> (0 if all are
  absent) otherwise.
\<close>

theorem fetchPointsBatch_entries:
  "dom (fst (fetchPointsBatch api tokenIds ty reqs)) \<subseteq> set tokenIds
   \<and> (\<forall>t \<in> set tokenIds. t \<noteq> ''__proto__'' \<longrightarrow>
        (\<exists>h. fst (fetchPointsBatch api tokenIds ty reqs) t
          = Some (points_of_answer (api h (points_url t ty)))))
   \<and> ((\<forall>h u. 0 \<le> points_of_answer (api h u)) \<longrightarrow>
        (\<forall>t v. fst (fetchPointsBatch api tokenIds ty reqs) t = Some v \<longrightarrow> 0 \<le> v))
   \<and> (\<forall>e. points_of_answer (Inl e) = 0)
   \<and> (\<forall>r. \<not> ok r \<longrightarrow> points_of_answer (Inr r) = 0)
   \<and> (\<forall>r e. ok r \<and> json_body r = Inl e \<longrightarrow> points_of_answer (Inr r) = 0)
   \<and> (\<forall>r d. ok r \<and> json_body r = Inr d \<longrightarrow> points_of_answer (Inr r) = coalesce_points d)"
proof -
  let ?m = "fst (fetchPointsBatch api tokenIds ty reqs)"
  have d: "dom ?m = set tokenIds - {''__proto__''}"
    by (simp add: fetchPointsBatch_fold fold_one_dom)
  have v: "\<exists>h. v = points_of_answer (api h (points_url t ty))" if "?m t = Some v" for t v
    using fold_one_value[of api ty tokenIds Map.empty reqs t v] that
    by (simp add: fetchPointsBatch_fold)
  have e: "\<exists>h. ?m t = Some (points_of_answer (api h (points_url t ty)))"
    if "t \<in> set tokenIds" "t \<noteq> ''__proto__''" for t
  proof -
    from that d have "t \<in> dom ?m" by simp
    then obtain v where "?m t = Some v" by blast
    with v[OF this] show ?thesis by blast
  qed
  have n: "0 \<le> v" if "\<forall>h u. 0 \<le> points_of_answer (api h u)" "?m t = Some v" for t v
    using v[OF that(2)] that(1) by blast
  have f: "(\<forall>e. points_of_answer (Inl e) = 0)
      \<and> (\<forall>r. \<not> ok r \<longrightarrow> points_of_answer (Inr r) = 0)
      \<and> (\<forall>r e. ok r \<and> json_body r = Inl e \<longrightarrow> points_of_answer (Inr r) = 0)
      \<and> (\<forall>r d. ok r \<and> json_body r = Inr d \<longrightarrow> points_of_answer (Inr r) = coalesce_points d)"
    by (simp add: points_of_answer_def)
  from d have s: "dom ?m \<subseteq> set tokenIds" by blast
  show ?thesis using s e n f by blast
qed

theorem fetchPointsBatch_entries_witness:
  "(\<forall>h u. 0 \<le> points_of_answer (five_api h u))
   \<and> ''2'' \<noteq> ''__proto__''
   \<and> dom (fst (fetchPointsBatch five_api [''1'', ''2''] Mythic [])) \<subseteq> {''1'', ''2''}
   \<and> fst (fetchPointsBatch five_api [''1'', ''2''] Mythic []) ''2'' = Some 5"
proof -
  have h: "\<forall>h u. 0 \<le> points_of_answer (five_api h u)"
    by (simp add: five_api_def points_of_points_answer)
  have p: "''2'' \<noteq> ''__proto__''" by simp
  note T = fetchPointsBatch_entries [of five_api "[''1'', ''2'']" Mythic "[]"]
  from T have d: "dom (fst (fetchPointsBatch five_api [''1'', ''2''] Mythic [])) \<subseteq> {''1'', ''2''}"
    by simp
  from T p have "\<exists>h. fst (fetchPointsBatch five_api [''1'', ''2''] Mythic []) ''2''
      = Some (points_of_answer (five_api h (points_url ''2'' Mythic)))"
    by simp
  then have v: "fst (fetchPointsBatch five_api [''1'', ''2''] Mythic []) ''2'' = Some 5"
    by (simp add: five_api_def points_of_points_answer)
  from h p d v show ?thesis by blast
qed

section \<open>Properties of the paging loops\<close>

lemma rebuild_NFTItem:
  "map (\<lambda>n. \<lparr>identifier = identifier n, image_url = NFTItem.image_url n,
                opensea_url = NFTItem.opensea_url n\<rparr>) nfts = nfts"
  by (induction nfts) simp_all

lemma failure_not_continues: "failure a = Some e \<Longrightarrow> \<not> continues a"
  by (auto simp: failure_def continues_def split: sum.splits if_splits)

lemma fetchAllNFTs_loop_step:
  "fetchAllNFTs_loop api slug acc cur pc reqs =
     (let url = nfts_page_url slug cur; a = api reqs url in
      case failure a of
        Some e \<Rightarrow> (Inl e, reqs @ [url])
      | None \<Rightarrow>
          if continues a \<and> pc + 1 < 50
          then fetchAllNFTs_loop api slug (acc @ page_items a) (page_cursor a) (pc + 1) (reqs @ [url])
          else (Inr (acc @ page_items a), reqs @ [url]))"
  apply (subst fetchAllNFTs_loop.simps)
  apply (simp add: Let_def fetch_def nfts_page_url_def failure_def continues_def page_items_def
      page_cursor_def rebuild_NFTItem split: sum.splits option.splits)
  done

lemma length_replay: "length (replay api reqs urls) = length urls"
  by (induction urls arbitrary: reqs) simp_all

lemma replay_Nil_iff: "replay api reqs urls = [] \<longleftrightarrow> urls = []"
  by (cases urls) simp_all

lemma in_replay: "a \<in> set (replay api reqs urls) \<Longrightarrow> \<exists>h u. a = api h u"
  by (induction urls arbitrary: reqs) auto

lemma fetchAllNFTs_loop_pages:
  assumes "pc < 50"
  shows "\<exists>urls. snd (fetchAllNFTs_loop api slug acc cur pc reqs) = reqs @ urls
      \<and> urls \<noteq> [] \<and> pc + length urls \<le> 50
      \<and> (\<forall>a \<in> set (butlast (replay api reqs urls)). continues a)
      \<and> (pc + length urls < 50 \<longrightarrow> \<not> continues (last (replay api reqs urls)))
      \<and> fst (fetchAllNFTs_loop api slug acc cur pc reqs) =
          (case failure (last (replay api reqs urls)) of
             Some e \<Rightarrow> Inl e
           | None \<Rightarrow> Inr (acc @ concat (map page_items (replay api reqs urls))))"
  using assms
proof (induction "50 - pc" arbitrary: acc cur pc reqs rule: less_induct)
  case less
  define url where "url = nfts_page_url slug cur"
  define a where "a = api reqs url"
  note step = fetchAllNFTs_loop_step[of api slug acc cur pc reqs, folded url_def, unfolded Let_def, folded a_def]
  show ?case
  proof (cases "failure a")
    case (Some e)
    then have "\<not> continues a" by (rule failure_not_continues)
    with Some step less.prems show ?thesis
      by (intro exI[of _ "[url]"]) (simp add: a_def)
  next
    case None
    show ?thesis
    proof (cases "continues a \<and> pc + 1 < 50")
      case False
      with None step less.prems show ?thesis
        by (intro exI[of _ "[url]"]) (auto simp: a_def)
    next
      case True
      then have lt: "50 - (pc + 1) < 50 - pc" and pc1: "pc + 1 < 50" by auto
      from less.hyps[OF lt pc1, of "acc @ page_items a" "page_cursor a" "reqs @ [url]"]
      obtain urls where u:
        "snd (fetchAllNFTs_loop api slug (acc @ page_items a) (page_cursor a) (pc + 1) (reqs @ [url]))
           = (reqs @ [url]) @ urls"
        "urls \<noteq> []" "pc + 1 + length urls \<le> 50"
        "\<forall>a \<in> set (butlast (replay api (reqs @ [url]) urls)). continues a"
        "pc + 1 + length urls < 50 \<longrightarrow> \<not> continues (last (replay api (reqs @ [url]) urls))"
        "fst (fetchAllNFTs_loop api slug (acc @ page_items a) (page_cursor a) (pc + 1) (reqs @ [url])) =
          (case failure (last (replay api (reqs @ [url]) urls)) of
             Some e \<Rightarrow> Inl e
           | None \<Rightarrow> Inr ((acc @ page_items a) @ concat (map page_items (replay api (reqs @ [url]) urls))))"
        by blast
      have ne: "replay api (reqs @ [url]) urls \<noteq> []" using u(2) by (simp add: replay_Nil_iff)
      have eq: "fetchAllNFTs_loop api slug acc cur pc reqs
          = fetchAllNFTs_loop api slug (acc @ page_items a) (page_cursor a) (pc + 1) (reqs @ [url])"
        using step None True by simp
      show ?thesis
        apply (intro exI[of _ "url # urls"])
        using u ne True
        apply (simp add: eq a_def[symmetric] split: option.splits)
        done
    qed
  qed
qed

lemma add_listed_append:
  "add_listed (xs @ ys) ids = add_listed ys (add_listed xs ids)"
  by (simp add: add_listed_def)

lemma add_listed_Nil: "add_listed [] ids = ids"
  by (simp add: add_listed_def)

lemma fetchListedTokenIds_loop_step:
  "fetchListedTokenIds_loop api slug acc cur pc reqs =
     (let url = listings_page_url slug cur; a = api reqs url in
      case failure a of
        Some e \<Rightarrow> (Inl e, reqs @ [url])
      | None \<Rightarrow>
          if continues a \<and> pc + 1 < 20
          then fetchListedTokenIds_loop api slug (add_listed (page_items a) acc) (page_cursor a)
                 (pc + 1) (reqs @ [url])
          else (Inr (add_listed (page_items a) acc), reqs @ [url]))"
  apply (subst fetchListedTokenIds_loop.simps)
  apply (simp add: Let_def fetch_def listings_page_url_def failure_def continues_def page_items_def
      page_cursor_def add_listed_Nil split: sum.splits option.splits)
  done

lemma fetchListedTokenIds_loop_pages:
  assumes "pc < 20"
  shows "\<exists>urls. snd (fetchListedTokenIds_loop api slug acc cur pc reqs) = reqs @ urls
      \<and> urls \<noteq> [] \<and> pc + length urls \<le> 20
      \<and> (\<forall>a \<in> set (butlast (replay api reqs urls)). continues a)
      \<and> (pc + length urls < 20 \<longrightarrow> \<not> continues (last (replay api reqs urls)))
      \<and> fst (fetchListedTokenIds_loop api slug acc cur pc reqs) =
          (case failure (last (replay api reqs urls)) of
             Some e \<Rightarrow> Inl e
           | None \<Rightarrow> Inr (add_listed (concat (map page_items (replay api reqs urls))) acc))"
  using assms
proof (induction "20 - pc" arbitrary: acc cur pc reqs rule: less_induct)
  case less
  define url where "url = listings_page_url slug cur"
  define a where "a = api reqs url"
  note step = fetchListedTokenIds_loop_step[of api slug acc cur pc reqs, folded url_def,
      unfolded Let_def, folded a_def]
  show ?case
  proof (cases "failure a")
    case (Some e)
    then have "\<not> continues a" by (rule failure_not_continues)
    with Some step less.prems show ?thesis
      by (intro exI[of _ "[url]"]) (simp add: a_def)
  next
    case None
    show ?thesis
    proof (cases "continues a \<and> pc + 1 < 20")
      case False
      with None step less.prems show ?thesis
        by (intro exI[of _ "[url]"]) (auto simp: a_def)
    next
      case True
      then have lt: "20 - (pc + 1) < 20 - pc" and pc1: "pc + 1 < 20" by auto
      from less.hyps[OF lt pc1, of "add_listed (page_items a) acc" "page_cursor a" "reqs @ [url]"]
      obtain urls where u:
        "snd (fetchListedTokenIds_loop api slug (add_listed (page_items a) acc) (page_cursor a)
               (pc + 1) (reqs @ [url])) = (reqs @ [url]) @ urls"
        "urls \<noteq> []" "pc + 1 + length urls \<le> 20"
        "\<forall>a \<in> set (butlast (replay api (reqs @ [url]) urls)). continues a"
        "pc + 1 + length urls < 20 \<longrightarrow> \<not> continues (last (replay api (reqs @ [url]) urls))"
        "fst (fetchListedTokenIds_loop api slug (add_listed (page_items a) acc) (page_cursor a)
               (pc + 1) (reqs @ [url])) =
          (case failure (last (replay api (reqs @ [url]) urls)) of
             Some e \<Rightarrow> Inl e
           | None \<Rightarrow> Inr (add_listed (concat (map page_items (replay api (reqs @ [url]) urls)))
                          (add_listed (page_items a) acc)))"
        by blast
      have ne: "replay api (reqs @ [url]) urls \<noteq> []" using u(2) by (simp add: replay_Nil_iff)
      have eq: "fetchListedTokenIds_loop api slug acc cur pc reqs
          = fetchListedTokenIds_loop api slug (add_listed (page_items a) acc) (page_cursor a)
              (pc + 1) (reqs @ [url])"
        using step None True by simp
      show ?thesis
        apply (intro exI[of _ "url # urls"])
        using u ne True
        apply (simp add: eq a_def[symmetric] add_listed_append split: option.splits)
        done
    qed
  qed
qed

text \<open>
  C4: \<^verbatim>\<open>fetchAllNFTs\<close> and \<^verbatim>\<open>fetchListedTokenIds\<close> are total (their loops are defined with
  a termination proof on the pages left below the cap), and for every marketplace, also
  one whose cursor chain never ends: the call makes at least one and at most 50 (20)
  requests; every request but the last was answered by an ok page with a cursor; when
  the call stopped below the cap, the last answer was not such a page (the cursor was
  null, absent or empty, the answer was not ok, or it failed); the result is the
  exception of the last answer if it raised one, and otherwise the items of all ok
  pages received, so a non-ok answer returns what was accumulated before it.
\<close>

theorem pagination_stops:
  "(\<exists>urls. snd (fetchAllNFTs api slug reqs) = reqs @ urls
      \<and> urls \<noteq> [] \<and> length urls \<le> 50
      \<and> (\<forall>a \<in> set (butlast (replay api reqs urls)). continues a)
      \<and> (length urls < 50 \<longrightarrow> \<not> continues (last (replay api reqs urls)))
      \<and> fst (fetchAllNFTs api slug reqs) =
          (case failure (last (replay api reqs urls)) of
             Some e \<Rightarrow> Inl e
           | None \<Rightarrow> Inr (concat (map page_items (replay api reqs urls)))))
   \<and> (\<exists>urls. snd (fetchListedTokenIds api' slug' reqs') = reqs' @ urls
      \<and> urls \<noteq> [] \<and> length urls \<le> 20
      \<and> (\<forall>a \<in> set (butlast (replay api' reqs' urls)). continues a)
      \<and> (length urls < 20 \<longrightarrow> \<not> continues (last (replay api' reqs' urls)))
      \<and> fst (fetchListedTokenIds api' slug' reqs') =
          (case failure (last (replay api' reqs' urls)) of
             Some e \<Rightarrow> Inl e
           | None \<Rightarrow> Inr (add_listed (concat (map page_items (replay api' reqs' urls))) {})))"
proof
  show "\<exists>urls. snd (fetchAllNFTs api slug reqs) = reqs @ urls
      \<and> urls \<noteq> [] \<and> length urls \<le> 50
      \<and> (\<forall>a \<in> set (butlast (replay api reqs urls)). continues a)
      \<and> (length urls < 50 \<longrightarrow> \<not> continues (last (replay api reqs urls)))
      \<and> fst (fetchAllNFTs api slug reqs) =
          (case failure (last (replay api reqs urls)) of
             Some e \<Rightarrow> Inl e
           | None \<Rightarrow> Inr (concat (map page_items (replay api reqs urls))))"
    using fetchAllNFTs_loop_pages[of 0 api slug "[]" None reqs]
    by (simp add: fetchAllNFTs_def cong: option.case_cong)
next
  show "\<exists>urls. snd (fetchListedTokenIds api' slug' reqs') = reqs' @ urls
      \<and> urls \<noteq> [] \<and> length urls \<le> 20
      \<and> (\<forall>a \<in> set (butlast (replay api' reqs' urls)). continues a)
      \<and> (length urls < 20 \<longrightarrow> \<not> continues (last (replay api' reqs' urls)))
      \<and> fst (fetchListedTokenIds api' slug' reqs') =
          (case failure (last (replay api' reqs' urls)) of
             Some e \<Rightarrow> Inl e
           | None \<Rightarrow> Inr (add_listed (concat (map page_items (replay api' reqs' urls))) {}))"
    using fetchListedTokenIds_loop_pages[of 0 api' slug' "{}" None reqs']
    by (simp add: fetchListedTokenIds_def cong: option.case_cong)
qed

lemma continues_endless_nfts: "continues (endless_nfts h u)"
  by (simp add: continues_def endless_nfts_def ok_def or_null_def truthy_def)

lemma continues_endless_listings: "continues (endless_listings h u)"
  by (simp add: continues_def endless_listings_def ok_def or_null_def truthy_def)

lemma last_replay: "urls \<noteq> [] \<Longrightarrow> \<exists>h u. last (replay api reqs urls) = api h u"
  using in_replay[of "last (replay api reqs urls)" api reqs urls]
  by (simp add: replay_Nil_iff)

theorem pagination_stops_witness:
  "length (snd (fetchAllNFTs endless_nfts ''mythicseed'' [])) = 50
   \<and> length (snd (fetchListedTokenIds endless_listings ''mythicseed'' [])) = 20"
proof -
  note T = pagination_stops[of endless_nfts "''mythicseed''" "[]" endless_listings "''mythicseed''" "[]"]
  from T obtain urls where u: "snd (fetchAllNFTs endless_nfts ''mythicseed'' []) = [] @ urls"
    "urls \<noteq> []" "length urls \<le> 50"
    "length urls < 50 \<longrightarrow> \<not> continues (last (replay endless_nfts [] urls))"
    by blast
  from last_replay[OF u(2), of endless_nfts "[]"] have "continues (last (replay endless_nfts [] urls))"
    by (auto simp: continues_endless_nfts)
  with u have a: "length (snd (fetchAllNFTs endless_nfts ''mythicseed'' [])) = 50" by auto
  from T obtain urls' where v: "snd (fetchListedTokenIds endless_listings ''mythicseed'' []) = [] @ urls'"
    "urls' \<noteq> []" "length urls' \<le> 20"
    "length urls' < 20 \<longrightarrow> \<not> continues (last (replay endless_listings [] urls'))"
    by blast
  from last_replay[OF v(2), of endless_listings "[]"]
  have "continues (last (replay endless_listings [] urls'))"
    by (auto simp: continues_endless_listings)
  with v have b: "length (snd (fetchListedTokenIds endless_listings ''mythicseed'' [])) = 20" by auto
  from a b show ?thesis by simp
qed

section \<open>Properties of the refresh handler\<close>

lemma process_collection_meta:
  "leaderboard_meta (snd (process_collection e ty slug w)) = leaderboard_meta w"
  by (simp add: process_collection_def Let_def split: prod.splits sum.splits)

lemma process_all_meta: "leaderboard_meta (snd (process_all e cs w)) = leaderboard_meta w"
proof (induction cs arbitrary: w)
  case Nil
  show ?case by simp
next
  case (Cons c cs)
  obtain ty slug where c: "c = (ty, slug)" by (cases c)
  obtain r w' where p: "process_collection e ty slug w = (r, w')"
    by (cases "process_collection e ty slug w")
  from process_collection_meta[of e ty slug w] p
  have m: "leaderboard_meta w' = leaderboard_meta w" by simp
  show ?case
  proof (cases r)
    case (Inl err)
    with c p m show ?thesis by simp
  next
    case (Inr u)
    with c p m Cons.IH[of w'] show ?thesis by simp
  qed
qed

lemma process_collection_error_entries:
  "process_collection e ty slug w = (Inl err, w') \<Longrightarrow> leaderboard_entries w' = leaderboard_entries w"
  by (auto simp: process_collection_def Let_def split: prod.splits sum.splits)

lemma meta_mark_running:
  "leaderboard_meta (mark_running e w) cacheKey =
     Some ((case leaderboard_meta w cacheKey of
              None \<Rightarrow> \<lparr>status = [], last_started_at = None, last_completed_at = None, last_error = None\<rparr>
            | Some row \<Rightarrow> row)\<lparr>status := ''running'', last_started_at := Some (started_at e)\<rparr>)"
  by (simp add: mark_running_def upsert_meta_def)

lemma fetchAllNFTs_rejected:
  "api reqs (nfts_page_url slug None) = Inl err \<Longrightarrow>
     fetchAllNFTs api slug reqs = (Inl err, reqs @ [nfts_page_url slug None])"
  unfolding fetchAllNFTs_def
  by (subst fetchAllNFTs_loop_step) (simp add: Let_def failure_def)

lemma fetchAllNFTs_single_page:
  "api reqs (nfts_page_url slug None) = Inr r \<Longrightarrow> ok r \<Longrightarrow> json_body r = Inr d \<Longrightarrow>
   or_null (next d) = None \<Longrightarrow>
     fetchAllNFTs api slug reqs =
       (Inr (case items d of None \<Rightarrow> [] | Some xs \<Rightarrow> xs), reqs @ [nfts_page_url slug None])"
  unfolding fetchAllNFTs_def
  by (subst fetchAllNFTs_loop_step) (simp add: Let_def failure_def continues_def page_items_def)

lemma fetchListedTokenIds_single_page:
  "api reqs (listings_page_url slug None) = Inr r \<Longrightarrow> ok r \<Longrightarrow> json_body r = Inr d \<Longrightarrow>
   or_null (next d) = None \<Longrightarrow>
     fetchListedTokenIds api slug reqs =
       (Inr (add_listed (case items d of None \<Rightarrow> [] | Some xs \<Rightarrow> xs) {}),
        reqs @ [listings_page_url slug None])"
  unfolding fetchListedTokenIds_def
  by (subst fetchListedTokenIds_loop_step) (simp add: Let_def failure_def continues_def page_items_def)

lemma upsert_batches_one_batch:
  "nfts \<noteq> [] \<Longrightarrow> length nfts \<le> 100 \<Longrightarrow>
     upsert_batches e mk nfts 0 tbl =
       (if upsert_rejected e tbl (map mk nfts) then tbl else upsert_rows (map mk nfts) tbl)"
  apply (subst upsert_batches.simps)
  apply (simp add: Let_def)
  apply (subst upsert_batches.simps, simp)
  apply (subst upsert_batches.simps, simp)
  done

lemma process_three_tokens:
  assumes n: "nfts_api e (requests w) (nfts_page_url slug None) = Inr r1" "ok r1"
      "json_body r1 = Inr \<lparr>items = Some [na, nb, nc], next = None\<rparr>"
    and l: "listings_api e (requests w @ [nfts_page_url slug None]) (listings_page_url slug None) = Inr r2"
      "ok r2" "json_body r2 = Inr \<lparr>items = Some [l], next = None\<rparr>"
      "offered_id l = Some (identifier nb)"
    and d: "distinct [identifier na, identifier nb, identifier nc]"
    and t: "truthy (identifier na)" "truthy (identifier nb)" "truthy (identifier nc)"
    and o: "identifier na \<noteq> ''__proto__''" "identifier nb \<noteq> ''__proto__''"
      "identifier nc \<noteq> ''__proto__''"
    and p: "\<forall>h. points_of_answer (staking_api e h (points_url (identifier na) ty)) = 5"
      "\<forall>h. points_of_answer (staking_api e h (points_url (identifier nb) ty)) = 0"
      "\<forall>h. points_of_answer (staking_api e h (points_url (identifier nc) ty)) = 12"
    and db: "\<forall>tbl rows. \<not> upsert_rejected e tbl rows"
  shows "fst (process_collection e ty slug w) = Inr ()
    \<and> leaderboard_entries (snd (process_collection e ty slug w)) =
        (leaderboard_entries w)
          ((slug, identifier na) \<mapsto>
             \<lparr>collection_slug = slug, nft_type = ty, token_id = identifier na, points = Number 5,
              image_url = NFTItem.image_url na, opensea_url = NFTItem.opensea_url na,
              is_listed = False\<rparr>,
           (slug, identifier nb) \<mapsto>
             \<lparr>collection_slug = slug, nft_type = ty, token_id = identifier nb, points = Number 0,
              image_url = NFTItem.image_url nb, opensea_url = NFTItem.opensea_url nb,
              is_listed = True\<rparr>,
           (slug, identifier nc) \<mapsto>
             \<lparr>collection_slug = slug, nft_type = ty, token_id = identifier nc, points = Number 12,
              image_url = NFTItem.image_url nc, opensea_url = NFTItem.opensea_url nc,
              is_listed = False\<rparr>)"
proof -
  have f1: "fetchAllNFTs (nfts_api e) slug (requests w)
      = (Inr [na, nb, nc], requests w @ [nfts_page_url slug None])"
    using fetchAllNFTs_single_page[of "nfts_api e" "requests w" slug r1
        "\<lparr>items = Some [na, nb, nc], next = None\<rparr>"] n
    by (simp add: or_null_def)
  have f2: "fetchListedTokenIds (listings_api e) slug (requests w @ [nfts_page_url slug None])
      = (Inr {identifier nb}, requests w @ [nfts_page_url slug None, listings_page_url slug None])"
    using fetchListedTokenIds_single_page[of "listings_api e"
        "requests w @ [nfts_page_url slug None]" slug r2 "\<lparr>items = Some [l], next = None\<rparr>"] l t(2)
    by (simp add: or_null_def add_listed_def)
  have f3: "fst (fetchPointsBatch (staking_api e) [identifier na, identifier nb, identifier nc] ty reqs)
      = [identifier na \<mapsto> 5, identifier nb \<mapsto> 0, identifier nc \<mapsto> 12]" for reqs
    using p o by (simp add: fetchPointsBatch_fold fetchPointsOne_pair object_set_def)
  have f4: "upsert_batches e mk [na, nb, nc] 0 tbl = upsert_rows (map mk [na, nb, nc]) tbl" for mk tbl
    using upsert_batches_one_batch[of "[na, nb, nc]" e mk tbl] db by simp
  obtain m reqs' where f5: "fetchPointsBatch (staking_api e) [identifier na, identifier nb, identifier nc] ty
      (requests w @ [nfts_page_url slug None, listings_page_url slug None]) = (m, reqs')"
    by (cases "fetchPointsBatch (staking_api e) [identifier na, identifier nb, identifier nc] ty
      (requests w @ [nfts_page_url slug None, listings_page_url slug None])")
  with f3 have m: "m = [identifier na \<mapsto> 5, identifier nb \<mapsto> 0, identifier nc \<mapsto> 12]"
    by (metis fst_conv)
  from d have d': "identifier nb \<noteq> identifier na" "identifier nc \<noteq> identifier na"
    "identifier nc \<noteq> identifier nb" by auto
  show ?thesis
    using d d' t
    by (simp add: process_collection_def f1 f2 f4 f5 m Let_def make_row_def upsert_rows_def
        object_get_def)
qed

text \<open>
  C3: the handler of \<^verbatim>\<open>leaderboard-refresh\<close> answers every request, with status 200 or
  500. For a request that is not a preflight: when the loop over the collections
  completes, the status row is \<^verbatim>\<open>idle\<close> with \<^verbatim>\<open>last_completed_at\<close> set and \<^verbatim>\<open>last_error\<close>
  null, and the answer is the success body; when the loop raises \<open>err\<close>, the status row
  is \<^verbatim>\<open>error\<close>, \<^verbatim>\<open>last_error\<close> holds the message of \<open>err\<close>, and the answer is the failure
  body with status 500. The message of an \<^verbatim>\<open>Error\<close> object is its \<^verbatim>\<open>message\<close>.
\<close>

theorem refresh_handler_replies:
  "(reply_status (fst (refresh_handler e method w)) = 200
      \<or> reply_status (fst (refresh_handler e method w)) = 500)
   \<and> (method \<noteq> ''OPTIONS'' \<longrightarrow>
     (case process_all e COLLECTION_ENTRIES (mark_running e w) of
        (Inr u, w') \<Rightarrow>
          refresh_handler e method w = (\<lparr>reply_status = 200, reply_body = Success\<rparr>, mark_completed e w')
          \<and> (\<exists>row. leaderboard_meta (mark_completed e w') cacheKey = Some row
                \<and> status row = ''idle'' \<and> last_completed_at row = Some (completed_at e)
                \<and> last_error row = None)
      | (Inl err, w') \<Rightarrow>
          refresh_handler e method w =
            (\<lparr>reply_status = 500, reply_body = ErrorBody ''Refresh failed''\<rparr>, mark_error err w')
          \<and> (\<exists>row. leaderboard_meta (mark_error err w') cacheKey = Some row
                \<and> status row = ''error'' \<and> last_error row = Some (error_message err))))
   \<and> (\<forall>m. error_message (Error m) = m)"
  by (simp add: refresh_handler_def Let_def mark_completed_def mark_error_def upsert_meta_def
      error_message_def split: prod.splits sum.splits)

theorem refresh_handler_replies_witness:
  "''POST'' \<noteq> ''OPTIONS''
   \<and> fst (refresh_handler failing_env ''POST'' empty_world)
       = \<lparr>reply_status = 500, reply_body = ErrorBody ''Refresh failed''\<rparr>
   \<and> (\<exists>row. leaderboard_meta (snd (refresh_handler failing_env ''POST'' empty_world)) cacheKey = Some row
         \<and> status row = ''error'' \<and> last_error row = Some ''network down'')"
proof -
  have "fetchAllNFTs (nfts_api failing_env) ''mythicseed'' (requests (mark_running failing_env empty_world))
      = (Inl (Error ''network down''),
         requests (mark_running failing_env empty_world) @ [nfts_page_url ''mythicseed'' None])"
    by (rule fetchAllNFTs_rejected) (simp add: failing_env_def)
  then have pa: "process_all failing_env COLLECTION_ENTRIES (mark_running failing_env empty_world)
      = (Inl (Error ''network down''),
         (mark_running failing_env empty_world)\<lparr>requests :=
            requests (mark_running failing_env empty_world) @ [nfts_page_url ''mythicseed'' None]\<rparr>)"
    by (simp add: COLLECTION_ENTRIES_def COLLECTION_SLUGS_def process_collection_def)
  have m: "''POST'' \<noteq> ''OPTIONS''" by simp
  from refresh_handler_replies[of failing_env "''POST''" empty_world] m pa
  show ?thesis by (auto simp: error_message_def)
qed

lemma points_url_A: "points_url ''A'' Mythic = ''https://staking.youmio.ai/api/seeds/points?id=A&type=Mythic''"
  and points_url_B: "points_url ''B'' Mythic = ''https://staking.youmio.ai/api/seeds/points?id=B&type=Mythic''"
  and points_url_C: "points_url ''C'' Mythic = ''https://staking.youmio.ai/api/seeds/points?id=C&type=Mythic''"
  by (simp_all add: points_url_def STAKING_API_BASE_def encodeURIComponent_def unreserved_def nftType_name_def)

lemma nfts_url_mythic: "nfts_page_url ''mythicseed'' None = ''https://api.opensea.io/api/v2/collection/mythicseed/nfts?limit=200''"
  and nfts_url_ancient: "nfts_page_url ''ancientseed'' None = ''https://api.opensea.io/api/v2/collection/ancientseed/nfts?limit=200''"
  by (simp_all add: nfts_page_url_def OPENSEA_API_BASE_def or_null_def show_nat.simps)

lemma scenario_first_collection:
  "fst (process_collection scenario_env Mythic ''mythicseed'' w) = Inr ()
   \<and> leaderboard_entries (snd (process_collection scenario_env Mythic ''mythicseed'' w)) =
      (leaderboard_entries w)
        ((''mythicseed'', ''A'') \<mapsto>
           \<lparr>collection_slug = ''mythicseed'', nft_type = Mythic, token_id = ''A'', points = Number 5,
            image_url = Some ''https://img.example/A'', opensea_url = None, is_listed = False\<rparr>,
         (''mythicseed'', ''B'') \<mapsto>
           \<lparr>collection_slug = ''mythicseed'', nft_type = Mythic, token_id = ''B'', points = Number 0,
            image_url = Some ''https://img.example/B'', opensea_url = None, is_listed = True\<rparr>,
         (''mythicseed'', ''C'') \<mapsto>
           \<lparr>collection_slug = ''mythicseed'', nft_type = Mythic, token_id = ''C'', points = Number 12,
            image_url = Some ''https://img.example/C'', opensea_url = None, is_listed = False\<rparr>)"
  using process_three_tokens[of scenario_env w "''mythicseed''"
      "Response 200 [] (Inr \<lparr>items = Some [seed ''A'', seed ''B'', seed ''C''], next = None\<rparr>)"
      "seed ''A''" "seed ''B''" "seed ''C''"
      "Response 200 [] (Inr \<lparr>items = Some [listing_of ''B''], next = None\<rparr>)"
      "listing_of ''B''" Mythic]
  by (simp add: scenario_env_def scenario_nfts_def scenario_listings_def scenario_staking_def
      seed_def listing_of_def offered_id_def ok_def truthy_def points_url_A points_url_B points_url_C
      points_of_points_answer)

lemma process_all_two:
  "process_collection e Mythic ''mythicseed'' w = (Inr u, w1) \<Longrightarrow>
   process_collection e Ancient ''ancientseed'' w1 = (Inl err, w2) \<Longrightarrow>
     process_all e COLLECTION_ENTRIES w = (Inl err, w2)"
  by (simp add: COLLECTION_ENTRIES_def COLLECTION_SLUGS_def)

lemma scenario_second_collection:
  "process_collection scenario_env Ancient ''ancientseed'' w =
     (Inl (Error ''connection refused''), w\<lparr>requests := requests w @ [nfts_page_url ''ancientseed'' None]\<rparr>)"
proof -
  have "fetchAllNFTs (nfts_api scenario_env) ''ancientseed'' (requests w)
      = (Inl (Error ''connection refused''), requests w @ [nfts_page_url ''ancientseed'' None])"
    by (rule fetchAllNFTs_rejected)
      (simp add: scenario_env_def scenario_nfts_def nfts_url_mythic nfts_url_ancient)
  then show ?thesis by (simp add: process_collection_def)
qed

text \<open>
  C2: a collection whose marketplace page holds exactly the three tokens A, B, C (with
  distinct, non-empty identifiers, none of them \<^verbatim>\<open>__proto__\<close>) and no cursor, whose one listing offers B, and for
  which the staking API answers 5, 0 and 12, is processed without an exception, and
  when the database accepts the batch the table of entries afterwards is the table
  before with exactly three rows written: A with points 5 and not listed, B with
  points 0 and listed, C with points 12 and not listed.
\<close>

theorem three_token_collection:
  assumes "nfts_api e (requests w) (nfts_page_url slug None) = Inr r1" "ok r1"
      "json_body r1 = Inr \<lparr>items = Some [na, nb, nc], next = None\<rparr>"
    and "listings_api e (requests w @ [nfts_page_url slug None]) (listings_page_url slug None) = Inr r2"
      "ok r2" "json_body r2 = Inr \<lparr>items = Some [l], next = None\<rparr>"
      "offered_id l = Some (identifier nb)"
    and "distinct [identifier na, identifier nb, identifier nc]"
    and "truthy (identifier na)" "truthy (identifier nb)" "truthy (identifier nc)"
    and "identifier na \<noteq> ''__proto__''" "identifier nb \<noteq> ''__proto__''"
      "identifier nc \<noteq> ''__proto__''"
    and "\<forall>h. points_of_answer (staking_api e h (points_url (identifier na) ty)) = 5"
      "\<forall>h. points_of_answer (staking_api e h (points_url (identifier nb) ty)) = 0"
      "\<forall>h. points_of_answer (staking_api e h (points_url (identifier nc) ty)) = 12"
    and "\<forall>tbl rows. \<not> upsert_rejected e tbl rows"
  shows "fst (process_collection e ty slug w) = Inr ()
    \<and> leaderboard_entries (snd (process_collection e ty slug w)) =
        (leaderboard_entries w)
          ((slug, identifier na) \<mapsto>
             \<lparr>collection_slug = slug, nft_type = ty, token_id = identifier na, points = Number 5,
              image_url = NFTItem.image_url na, opensea_url = NFTItem.opensea_url na,
              is_listed = False\<rparr>,
           (slug, identifier nb) \<mapsto>
             \<lparr>collection_slug = slug, nft_type = ty, token_id = identifier nb, points = Number 0,
              image_url = NFTItem.image_url nb, opensea_url = NFTItem.opensea_url nb,
              is_listed = True\<rparr>,
           (slug, identifier nc) \<mapsto>
             \<lparr>collection_slug = slug, nft_type = ty, token_id = identifier nc, points = Number 12,
              image_url = NFTItem.image_url nc, opensea_url = NFTItem.opensea_url nc,
              is_listed = False\<rparr>)"
  using assms by (rule process_three_tokens)

theorem three_token_collection_witness:
  "fst (process_collection scenario_env Mythic ''mythicseed'' empty_world) = Inr ()
   \<and> leaderboard_entries (snd (process_collection scenario_env Mythic ''mythicseed'' empty_world)) =
      [(''mythicseed'', ''A'') \<mapsto>
           \<lparr>collection_slug = ''mythicseed'', nft_type = Mythic, token_id = ''A'', points = Number 5,
            image_url = Some ''https://img.example/A'', opensea_url = None, is_listed = False\<rparr>,
         (''mythicseed'', ''B'') \<mapsto>
           \<lparr>collection_slug = ''mythicseed'', nft_type = Mythic, token_id = ''B'', points = Number 0,
            image_url = Some ''https://img.example/B'', opensea_url = None, is_listed = True\<rparr>,
         (''mythicseed'', ''C'') \<mapsto>
           \<lparr>collection_slug = ''mythicseed'', nft_type = Mythic, token_id = ''C'', points = Number 12,
            image_url = Some ''https://img.example/C'', opensea_url = None, is_listed = False\<rparr>]"
  using three_token_collection[of scenario_env empty_world "''mythicseed''"
      "Response 200 [] (Inr \<lparr>items = Some [seed ''A'', seed ''B'', seed ''C''], next = None\<rparr>)"
      "seed ''A''" "seed ''B''" "seed ''C''"
      "Response 200 [] (Inr \<lparr>items = Some [listing_of ''B''], next = None\<rparr>)"
      "listing_of ''B''" Mythic]
  by (simp add: scenario_env_def scenario_nfts_def scenario_listings_def scenario_staking_def
      seed_def listing_of_def offered_id_def ok_def truthy_def points_url_A points_url_B points_url_C
      points_of_points_answer empty_world_def)

text \<open>
  C6: when the first collection is processed to its end and the second raises, the
  table of entries at the end of the handler is the table as it was when the first
  collection finished (nothing is rolled back or deleted on the error path), the
  answer is the failure body with status 500, and the status row is \<^verbatim>\<open>error\<close> with
  \<^verbatim>\<open>last_error\<close> holding the message.
\<close>

theorem first_collection_rows_survive:
  assumes "method \<noteq> ''OPTIONS''"
    and "process_collection e Mythic ''mythicseed'' (mark_running e w) = (Inr u, w1)"
    and "process_collection e Ancient ''ancientseed'' w1 = (Inl err, w2)"
  shows "leaderboard_entries (snd (refresh_handler e method w)) = leaderboard_entries w1
    \<and> fst (refresh_handler e method w) = \<lparr>reply_status = 500, reply_body = ErrorBody ''Refresh failed''\<rparr>
    \<and> (\<exists>row. leaderboard_meta (snd (refresh_handler e method w)) cacheKey = Some row
          \<and> status row = ''error'' \<and> last_error row = Some (error_message err))"
proof -
  from assms(2,3) have pa: "process_all e COLLECTION_ENTRIES (mark_running e w) = (Inl err, w2)"
    by (rule process_all_two)
  from assms(3) have en: "leaderboard_entries w2 = leaderboard_entries w1"
    by (rule process_collection_error_entries)
  from assms(1) pa en show ?thesis
    by (simp add: refresh_handler_def Let_def mark_error_def upsert_meta_def)
qed

theorem first_collection_rows_survive_witness:
  "''POST'' \<noteq> ''OPTIONS''
   \<and> leaderboard_entries (snd (refresh_handler scenario_env ''POST'' empty_world)) =
      [(''mythicseed'', ''A'') \<mapsto>
           \<lparr>collection_slug = ''mythicseed'', nft_type = Mythic, token_id = ''A'', points = Number 5,
            image_url = Some ''https://img.example/A'', opensea_url = None, is_listed = False\<rparr>,
         (''mythicseed'', ''B'') \<mapsto>
           \<lparr>collection_slug = ''mythicseed'', nft_type = Mythic, token_id = ''B'', points = Number 0,
            image_url = Some ''https://img.example/B'', opensea_url = None, is_listed = True\<rparr>,
         (''mythicseed'', ''C'') \<mapsto>
           \<lparr>collection_slug = ''mythicseed'', nft_type = Mythic, token_id = ''C'', points = Number 12,
            image_url = Some ''https://img.example/C'', opensea_url = None, is_listed = False\<rparr>]
   \<and> fst (refresh_handler scenario_env ''POST'' empty_world)
        = \<lparr>reply_status = 500, reply_body = ErrorBody ''Refresh failed''\<rparr>
   \<and> (\<exists>row. leaderboard_meta (snd (refresh_handler scenario_env ''POST'' empty_world)) cacheKey = Some row
         \<and> status row = ''error'' \<and> last_error row = Some ''connection refused'')"
proof -
  let ?w0 = "mark_running scenario_env empty_world"
  let ?w1 = "snd (process_collection scenario_env Mythic ''mythicseed'' ?w0)"
  have m: "''POST'' \<noteq> ''OPTIONS''" by simp
  have a: "process_collection scenario_env Mythic ''mythicseed'' ?w0 = (Inr (), ?w1)"
    using scenario_first_collection[of ?w0] by (simp add: prod_eq_iff)
  have e1: "leaderboard_entries ?w1 =
      [(''mythicseed'', ''A'') \<mapsto>
           \<lparr>collection_slug = ''mythicseed'', nft_type = Mythic, token_id = ''A'', points = Number 5,
            image_url = Some ''https://img.example/A'', opensea_url = None, is_listed = False\<rparr>,
         (''mythicseed'', ''B'') \<mapsto>
           \<lparr>collection_slug = ''mythicseed'', nft_type = Mythic, token_id = ''B'', points = Number 0,
            image_url = Some ''https://img.example/B'', opensea_url = None, is_listed = True\<rparr>,
         (''mythicseed'', ''C'') \<mapsto>
           \<lparr>collection_slug = ''mythicseed'', nft_type = Mythic, token_id = ''C'', points = Number 12,
            image_url = Some ''https://img.example/C'', opensea_url = None, is_listed = False\<rparr>]"
    using scenario_first_collection[of ?w0] by (simp add: mark_running_def empty_world_def)
  note b = scenario_second_collection[of ?w1]
  from first_collection_rows_survive[OF m a b] e1 m
  show ?thesis by (simp add: error_message_def)
qed

text \<open>
  C8: the write of the error path sets \<^verbatim>\<open>status\<close> and \<^verbatim>\<open>last_error\<close> and leaves
  \<^verbatim>\<open>last_completed_at\<close> and \<^verbatim>\<open>last_started_at\<close> of the row as they were (null when there
  was no row); the write of the success path sets \<^verbatim>\<open>last_error\<close> to null. For the whole
  handler: after a run that raised, \<^verbatim>\<open>last_completed_at\<close> is what it was before the run,
  and after a run that completed, \<^verbatim>\<open>last_error\<close> is null.
\<close>

theorem status_writes_frame:
  "(\<exists>row. leaderboard_meta (mark_error err w) cacheKey = Some row
       \<and> status row = ''error'' \<and> last_error row = Some (error_message err)
       \<and> last_completed_at row = (case leaderboard_meta w cacheKey of None \<Rightarrow> None
                                    | Some old \<Rightarrow> last_completed_at old)
       \<and> last_started_at row = (case leaderboard_meta w cacheKey of None \<Rightarrow> None
                                    | Some old \<Rightarrow> last_started_at old))
   \<and> (\<exists>row. leaderboard_meta (mark_completed e w) cacheKey = Some row
       \<and> status row = ''idle'' \<and> last_error row = None
       \<and> last_completed_at row = Some (completed_at e))
   \<and> (method \<noteq> ''OPTIONS'' \<longrightarrow>
        (case fst (process_all e COLLECTION_ENTRIES (mark_running e w)) of
           Inl err \<Rightarrow>
             (\<exists>row. leaderboard_meta (snd (refresh_handler e method w)) cacheKey = Some row
                \<and> last_error row = Some (error_message err)
                \<and> last_completed_at row = (case leaderboard_meta w cacheKey of None \<Rightarrow> None
                                             | Some old \<Rightarrow> last_completed_at old))
         | Inr u \<Rightarrow>
             (\<exists>row. leaderboard_meta (snd (refresh_handler e method w)) cacheKey = Some row
                \<and> last_error row = None
                \<and> last_completed_at row = Some (completed_at e))))"
proof -
  have a: "\<exists>row. leaderboard_meta (mark_error err w) cacheKey = Some row
       \<and> status row = ''error'' \<and> last_error row = Some (error_message err)
       \<and> last_completed_at row = (case leaderboard_meta w cacheKey of None \<Rightarrow> None
                                    | Some old \<Rightarrow> last_completed_at old)
       \<and> last_started_at row = (case leaderboard_meta w cacheKey of None \<Rightarrow> None
                                    | Some old \<Rightarrow> last_started_at old)"
    by (simp add: mark_error_def upsert_meta_def split: option.splits)
  have b: "\<exists>row. leaderboard_meta (mark_completed e w) cacheKey = Some row
       \<and> status row = ''idle'' \<and> last_error row = None
       \<and> last_completed_at row = Some (completed_at e)"
    by (simp add: mark_completed_def upsert_meta_def)
  obtain r w' where pa: "process_all e COLLECTION_ENTRIES (mark_running e w) = (r, w')"
    by (cases "process_all e COLLECTION_ENTRIES (mark_running e w)")
  from process_all_meta[of e COLLECTION_ENTRIES "mark_running e w"] pa
  have m: "leaderboard_meta w' = leaderboard_meta (mark_running e w)" by simp
  have c: "method \<noteq> ''OPTIONS'' \<longrightarrow>
        (case fst (process_all e COLLECTION_ENTRIES (mark_running e w)) of
           Inl err \<Rightarrow>
             (\<exists>row. leaderboard_meta (snd (refresh_handler e method w)) cacheKey = Some row
                \<and> last_error row = Some (error_message err)
                \<and> last_completed_at row = (case leaderboard_meta w cacheKey of None \<Rightarrow> None
                                             | Some old \<Rightarrow> last_completed_at old))
         | Inr u \<Rightarrow>
             (\<exists>row. leaderboard_meta (snd (refresh_handler e method w)) cacheKey = Some row
                \<and> last_error row = None
                \<and> last_completed_at row = Some (completed_at e)))"
    using pa m
    by (cases r)
       (simp_all add: refresh_handler_def Let_def mark_error_def mark_completed_def mark_running_def
          upsert_meta_def split: option.splits)
  from a b c show ?thesis by blast
qed

theorem status_writes_frame_witness:
  "''POST'' \<noteq> ''OPTIONS''
   \<and> (\<exists>row. leaderboard_meta (snd (refresh_handler failing_env ''POST'' completed_world)) cacheKey = Some row
         \<and> last_error row = Some ''network down''
         \<and> last_completed_at row = Some ''2023-12-31T00:04:00.000Z'')"
proof -
  have "fetchAllNFTs (nfts_api failing_env) ''mythicseed'' (requests (mark_running failing_env completed_world))
      = (Inl (Error ''network down''),
         requests (mark_running failing_env completed_world) @ [nfts_page_url ''mythicseed'' None])"
    by (rule fetchAllNFTs_rejected) (simp add: failing_env_def)
  then have pa: "fst (process_all failing_env COLLECTION_ENTRIES (mark_running failing_env completed_world))
      = Inl (Error ''network down'')"
    by (simp add: COLLECTION_ENTRIES_def COLLECTION_SLUGS_def process_collection_def)
  have m: "''POST'' \<noteq> ''OPTIONS''" by simp
  have old: "leaderboard_meta completed_world cacheKey =
      Some \<lparr>status = ''idle'', last_started_at = Some ''2023-12-31T00:00:00.000Z'',
         last_completed_at = Some ''2023-12-31T00:04:00.000Z'', last_error = None\<rparr>"
    by (simp add: completed_world_def)
  from status_writes_frame[of "Error ''network down''" completed_world failing_env "''POST''"] m pa old
  show ?thesis by (simp add: error_message_def)
qed

section \<open>Properties of the handler of opensea-listings\<close>

lemma new_Response_accepts:
  "200 \<le> c \<Longrightarrow> c \<le> 599 \<Longrightarrow> c \<noteq> 204 \<Longrightarrow> c \<noteq> 205 \<Longrightarrow> c \<noteq> 304 \<Longrightarrow>
     new_Response b c = Inr \<lparr>reply_status = c, reply_body = b\<rparr>"
  by (simp add: new_Response_def)

lemma listings_handler_no_json:
  "req_method req \<noteq> ''OPTIONS'' \<Longrightarrow> req_json req = Inl e \<Longrightarrow>
     listings_handler api req reqs =
       (\<lparr>reply_status = 500, reply_body = ErrorBody (error_message e)\<rparr>, reqs)"
  by (simp add: listings_handler_def)

lemma listings_handler_no_slug:
  "req_method req \<noteq> ''OPTIONS'' \<Longrightarrow> req_json req = Inr s \<Longrightarrow> or_null s = None \<Longrightarrow>
     listings_handler api req reqs =
       (\<lparr>reply_status = 400, reply_body = ErrorBody ''Collection slug is required''\<rparr>, reqs)"
  by (simp add: listings_handler_def)

lemma listings_handler_answered:
  "req_method req \<noteq> ''OPTIONS'' \<Longrightarrow> req_json req = Inr (Some slug) \<Longrightarrow> slug \<noteq> [] \<Longrightarrow>
   api reqs (OPENSEA_API_BASE @ ''/listings/collection/'' @ slug @ ''/all'') = Inr r \<Longrightarrow>
     fst (listings_handler api req reqs) =
       (if \<not> ok r then
          (case new_Response (ErrorDetails (''OpenSea API error: '' @ show_nat (response.status r))
                                (text_body r)) (response.status r) of
             Inl error \<Rightarrow> \<lparr>reply_status = 500, reply_body = ErrorBody (error_message error)\<rparr>
           | Inr answer \<Rightarrow> answer)
        else (case json_body r of
                Inl error \<Rightarrow> \<lparr>reply_status = 500, reply_body = ErrorBody (error_message error)\<rparr>
              | Inr data \<Rightarrow>
                  \<lparr>reply_status = 200,
                    reply_body = Listings (case items data of None \<Rightarrow> [] | Some ls \<Rightarrow> ls)\<rparr>))"
  by (simp add: listings_handler_def Let_def fetch_def or_null_def truthy_def split: sum.splits)

text \<open>
  C7, as stated, fails twice. A request whose body is empty or no JSON carries no
  \<^verbatim>\<open>collectionSlug\<close>, and the answer is 500 with the message of the exception, not 400.
  And when the marketplace answers 304, the answer is not constructed: the \<^verbatim>\<open>catch\<close>
  answers 500 with \<^verbatim>\<open>{ error }\<close>, not 304 with \<^verbatim>\<open>{ error, details }\<close>.
\<close>

theorem listings_handler_500_instead:
  "fst (listings_handler scenario_listings
          \<lparr>req_method = ''POST'', req_json = Inl (Error ''Unexpected end of JSON input'')\<rparr> [])
     = \<lparr>reply_status = 500, reply_body = ErrorBody ''Unexpected end of JSON input''\<rparr>
   \<and> fst (listings_handler not_modified_listings
          \<lparr>req_method = ''POST'', req_json = Inr (Some ''mythicseed'')\<rparr> [])
     = \<lparr>reply_status = 500, reply_body = ErrorBody ''Response with null body status cannot have body''\<rparr>"
proof -
  have a: "fst (listings_handler scenario_listings
          \<lparr>req_method = ''POST'', req_json = Inl (Error ''Unexpected end of JSON input'')\<rparr> [])
     = \<lparr>reply_status = 500, reply_body = ErrorBody ''Unexpected end of JSON input''\<rparr>"
    by (simp add: listings_handler_no_json error_message_def)
  have b: "fst (listings_handler not_modified_listings
          \<lparr>req_method = ''POST'', req_json = Inr (Some ''mythicseed'')\<rparr> [])
     = \<lparr>reply_status = 500, reply_body = ErrorBody ''Response with null body status cannot have body''\<rparr>"
    using listings_handler_answered[of "\<lparr>req_method = ''POST'', req_json = Inr (Some ''mythicseed'')\<rparr>"
          "''mythicseed''" not_modified_listings "[]"
          "Response 304 [] (Inl (Error ''Unexpected end of JSON input''))"]
    by (simp add: not_modified_listings_def ok_def new_Response_def error_message_def)
  from a b show ?thesis by (rule conjI)
qed

text \<open>
  C7, amended: for a request that is not a preflight, the handler of
  \<^verbatim>\<open>opensea-listings\<close> answers 500 with the message of the exception when the body is
  empty, no JSON or null; 400 when the body parses and \<^verbatim>\<open>collectionSlug\<close> is missing from
  it (or is empty); when the marketplace answers with a status that is not ok, lies in
  200 to 599 and is not 304, the answer carries that same status and the body
  \<^verbatim>\<open>{ error, details }\<close> with the marketplace's status in \<^verbatim>\<open>error\<close> and its body text in
  \<^verbatim>\<open>details\<close>; when the marketplace answers ok with a body that parses, the answer is
  \<^verbatim>\<open>{ listings }\<close> with the marketplace's listings, or the empty array when it has none.
\<close>

theorem listings_handler_answers:
  "req_method req \<noteq> ''OPTIONS'' \<longrightarrow>
     (\<forall>e. req_json req = Inl e \<longrightarrow>
        listings_handler api req reqs =
          (\<lparr>reply_status = 500, reply_body = ErrorBody (error_message e)\<rparr>, reqs))
     \<and> ((req_json req = Inr None \<or> req_json req = Inr (Some [])) \<longrightarrow>
        listings_handler api req reqs =
          (\<lparr>reply_status = 400, reply_body = ErrorBody ''Collection slug is required''\<rparr>, reqs))
     \<and> (\<forall>slug r. req_json req = Inr (Some slug) \<and> slug \<noteq> []
            \<and> api reqs (OPENSEA_API_BASE @ ''/listings/collection/'' @ slug @ ''/all'') = Inr r
            \<and> \<not> ok r \<and> 200 \<le> response.status r \<and> response.status r \<le> 599
            \<and> response.status r \<noteq> 304 \<longrightarrow>
          fst (listings_handler api req reqs) =
            \<lparr>reply_status = response.status r,
              reply_body = ErrorDetails (''OpenSea API error: '' @ show_nat (response.status r)) (text_body r)\<rparr>)
     \<and> (\<forall>slug r d. req_json req = Inr (Some slug) \<and> slug \<noteq> []
            \<and> api reqs (OPENSEA_API_BASE @ ''/listings/collection/'' @ slug @ ''/all'') = Inr r
            \<and> ok r \<and> json_body r = Inr d \<longrightarrow>
          fst (listings_handler api req reqs) =
            \<lparr>reply_status = 200,
              reply_body = Listings (case items d of None \<Rightarrow> [] | Some ls \<Rightarrow> ls)\<rparr>)"
proof
  assume m: "req_method req \<noteq> ''OPTIONS''"
  have a: "\<forall>e. req_json req = Inl e \<longrightarrow>
        listings_handler api req reqs =
          (\<lparr>reply_status = 500, reply_body = ErrorBody (error_message e)\<rparr>, reqs)"
    using m by (simp add: listings_handler_no_json)
  have b: "(req_json req = Inr None \<or> req_json req = Inr (Some [])) \<longrightarrow>
        listings_handler api req reqs =
          (\<lparr>reply_status = 400, reply_body = ErrorBody ''Collection slug is required''\<rparr>, reqs)"
    using m listings_handler_no_slug[of req None api reqs] listings_handler_no_slug[of req "Some []" api reqs]
    by (auto simp: or_null_def truthy_def)
  have c: "fst (listings_handler api req reqs) =
            \<lparr>reply_status = response.status r,
              reply_body = ErrorDetails (''OpenSea API error: '' @ show_nat (response.status r)) (text_body r)\<rparr>"
    if "req_json req = Inr (Some slug)" "slug \<noteq> []"
      "api reqs (OPENSEA_API_BASE @ ''/listings/collection/'' @ slug @ ''/all'') = Inr r"
      "\<not> ok r" "200 \<le> response.status r" "response.status r \<le> 599" "response.status r \<noteq> 304"
    for slug r
  proof -
    from that(4,5) have "response.status r \<noteq> 204" "response.status r \<noteq> 205"
      by (auto simp: ok_def)
    with that(5,6,7) have "new_Response (ErrorDetails (''OpenSea API error: '' @ show_nat (response.status r))
        (text_body r)) (response.status r)
      = Inr \<lparr>reply_status = response.status r,
              reply_body = ErrorDetails (''OpenSea API error: '' @ show_nat (response.status r)) (text_body r)\<rparr>"
      by (simp add: new_Response_accepts)
    with listings_handler_answered[of req slug api reqs r] m that(1,2,3,4) show ?thesis by simp
  qed
  have d: "fst (listings_handler api req reqs) =
            \<lparr>reply_status = 200,
              reply_body = Listings (case items d of None \<Rightarrow> [] | Some ls \<Rightarrow> ls)\<rparr>"
    if "req_json req = Inr (Some slug)" "slug \<noteq> []"
      "api reqs (OPENSEA_API_BASE @ ''/listings/collection/'' @ slug @ ''/all'') = Inr r"
      "ok r" "json_body r = Inr d"
    for slug r d
    using listings_handler_answered[of req slug api reqs r] m that by simp
  from a b c d show "(\<forall>e. req_json req = Inl e \<longrightarrow>
        listings_handler api req reqs =
          (\<lparr>reply_status = 500, reply_body = ErrorBody (error_message e)\<rparr>, reqs))
     \<and> ((req_json req = Inr None \<or> req_json req = Inr (Some [])) \<longrightarrow>
        listings_handler api req reqs =
          (\<lparr>reply_status = 400, reply_body = ErrorBody ''Collection slug is required''\<rparr>, reqs))
     \<and> (\<forall>slug r. req_json req = Inr (Some slug) \<and> slug \<noteq> []
            \<and> api reqs (OPENSEA_API_BASE @ ''/listings/collection/'' @ slug @ ''/all'') = Inr r
            \<and> \<not> ok r \<and> 200 \<le> response.status r \<and> response.status r \<le> 599
            \<and> response.status r \<noteq> 304 \<longrightarrow>
          fst (listings_handler api req reqs) =
            \<lparr>reply_status = response.status r,
              reply_body = ErrorDetails (''OpenSea API error: '' @ show_nat (response.status r)) (text_body r)\<rparr>)
     \<and> (\<forall>slug r d. req_json req = Inr (Some slug) \<and> slug \<noteq> []
            \<and> api reqs (OPENSEA_API_BASE @ ''/listings/collection/'' @ slug @ ''/all'') = Inr r
            \<and> ok r \<and> json_body r = Inr d \<longrightarrow>
          fst (listings_handler api req reqs) =
            \<lparr>reply_status = 200,
              reply_body = Listings (case items d of None \<Rightarrow> [] | Some ls \<Rightarrow> ls)\<rparr>)"
    by blast
qed

theorem listings_handler_answers_witness:
  "''POST'' \<noteq> ''OPTIONS''
   \<and> listings_handler scenario_listings
        \<lparr>req_method = ''POST'', req_json = Inl (Error ''Unexpected end of JSON input'')\<rparr> []
       = (\<lparr>reply_status = 500, reply_body = ErrorBody ''Unexpected end of JSON input''\<rparr>, [])
   \<and> listings_handler scenario_listings \<lparr>req_method = ''POST'', req_json = Inr None\<rparr> []
       = (\<lparr>reply_status = 400, reply_body = ErrorBody ''Collection slug is required''\<rparr>, [])
   \<and> fst (listings_handler not_found_listings \<lparr>req_method = ''POST'', req_json = Inr (Some ''mythicseed'')\<rparr> [])
       = \<lparr>reply_status = 404, reply_body = ErrorDetails ''OpenSea API error: 404'' ''not found''\<rparr>
   \<and> fst (listings_handler scenario_listings \<lparr>req_method = ''POST'', req_json = Inr (Some ''mythicseed'')\<rparr> [])
       = \<lparr>reply_status = 200, reply_body = Listings [listing_of ''B'']\<rparr>"
proof -
  have m: "''POST'' \<noteq> ''OPTIONS''" by simp
  have z: "listings_handler scenario_listings
        \<lparr>req_method = ''POST'', req_json = Inl (Error ''Unexpected end of JSON input'')\<rparr> []
       = (\<lparr>reply_status = 500, reply_body = ErrorBody ''Unexpected end of JSON input''\<rparr>, [])"
    using listings_handler_answers[of
        "\<lparr>req_method = ''POST'', req_json = Inl (Error ''Unexpected end of JSON input'')\<rparr>"
        scenario_listings "[]"]
    by (simp add: error_message_def)
  have a: "listings_handler scenario_listings \<lparr>req_method = ''POST'', req_json = Inr None\<rparr> []
       = (\<lparr>reply_status = 400, reply_body = ErrorBody ''Collection slug is required''\<rparr>, [])"
    using listings_handler_answers[of "\<lparr>req_method = ''POST'', req_json = Inr None\<rparr>" scenario_listings "[]"]
    by simp
  have s404: "show_nat 404 = ''404''" by (simp add: show_nat.simps)
  have b: "fst (listings_handler not_found_listings \<lparr>req_method = ''POST'', req_json = Inr (Some ''mythicseed'')\<rparr> [])
       = \<lparr>reply_status = 404, reply_body = ErrorDetails ''OpenSea API error: 404'' ''not found''\<rparr>"
    using listings_handler_answers[of "\<lparr>req_method = ''POST'', req_json = Inr (Some ''mythicseed'')\<rparr>"
        not_found_listings "[]"]
    by (simp add: not_found_listings_def ok_def s404)
  have c: "fst (listings_handler scenario_listings \<lparr>req_method = ''POST'', req_json = Inr (Some ''mythicseed'')\<rparr> [])
       = \<lparr>reply_status = 200, reply_body = Listings [listing_of ''B'']\<rparr>"
    using listings_handler_answers[of "\<lparr>req_method = ''POST'', req_json = Inr (Some ''mythicseed'')\<rparr>"
        scenario_listings "[]"]
    by (simp add: scenario_listings_def ok_def)
  from m z a b c show ?thesis by blast
qed

section \<open>Properties of the staking points lookups\<close>

text \<open>
  C5 does not hold of \<^verbatim>\<open>fetchStakingPoints\<close>: on the ok answer \<^verbatim>\<open>{"totalPoints": 7}\<close> it
  returns 0, where the claim asks for the first non-null of \<^verbatim>\<open>points\<close>, \<^verbatim>\<open>totalPoints\<close> and
  \<^verbatim>\<open>stakingPoints\<close>, that is 7. The lookup inside \<^verbatim>\<open>fetchPointsBatch\<close> stores 7 for the
  same answer.
\<close>

theorem fetchStakingPoints_reads_points_only:
  "fst (fetchStakingPoints total_points_api ''1'' Mythic (Map.empty, [])) = 0
   \<and> fst (fetchPointsBatch total_points_api [''1''] Mythic []) ''1'' = Some 7"
  by (simp add: fetchStakingPoints_def fetchPointsBatch_fold fetchPointsOne_pair object_set_def
      total_points_api_def
      fetch_def ok_def Let_def points_of_answer_def coalesce_points_def)

text \<open>
  C9: after a call of \<^verbatim>\<open>fetchStakingPoints\<close> for a token id and type, a second call with
  the same arguments returns the same value, whatever the staking API would answer
  now, and it leaves the cache and the request log as they are: it makes no request.
\<close>

theorem fetchStakingPoints_memoized:
  "fetchStakingPoints api t ty (cache, reqs) = (v, cache', reqs') \<Longrightarrow>
     fetchStakingPoints api' t ty (cache', reqs'') = (v, cache', reqs'')"
  by (auto simp: fetchStakingPoints_def Let_def fetch_def split: option.splits sum.splits if_splits)

theorem fetchStakingPoints_memoized_witness:
  "fetchStakingPoints five_api ''1'' Mythic (Map.empty, []) =
     (5, [''Mythic_1'' \<mapsto> 5], [''https://staking.youmio.ai/api/seeds/points?id=1&type=Mythic''])
   \<and> fetchStakingPoints negative_api ''1'' Mythic ([''Mythic_1'' \<mapsto> 5], []) = (5, [''Mythic_1'' \<mapsto> 5], [])"
proof -
  have a: "fetchStakingPoints five_api ''1'' Mythic (Map.empty, []) =
     (5, [''Mythic_1'' \<mapsto> 5], [''https://staking.youmio.ai/api/seeds/points?id=1&type=Mythic''])"
    by (simp add: fetchStakingPoints_def Let_def fetch_def five_api_def points_answer_def ok_def
        nftType_name_def STAKING_API_BASE_def)
  from fetchStakingPoints_memoized[OF a, of negative_api "[]"] a show ?thesis by simp
qed

section \<open>Properties of sortListings\<close>

lemma mset_sort_insert: "mset (sort_insert comparefn a bs) = add_mset a (mset bs)"
  by (induction bs) simp_all

lemma mset_array_sort: "mset (array_sort comparefn xs) = mset xs"
  by (induction xs) (simp_all add: array_sort_def mset_sort_insert)

lemma sortListings_shape:
  "\<exists>xs. mset xs = mset (st ! listings)
     \<and> sortListings parseFloat listings sortType st
         = (length st, (st @ [st ! listings])[length st := xs])"
proof -
  consider (bestdeal) "sortType = ''bestdeal''"
    | (highestprice) "sortType \<noteq> ''bestdeal''" "sortType = ''highestprice''"
    | (lowestprice) "sortType \<noteq> ''bestdeal''" "sortType \<noteq> ''highestprice''" "sortType = ''lowestprice''"
    | (default) "sortType \<noteq> ''bestdeal''" "sortType \<noteq> ''highestprice''" "sortType \<noteq> ''lowestprice''"
    by blast
  then show ?thesis
  proof cases
    case bestdeal
    show ?thesis
      by (rule exI[of _ "array_sort (\<lambda>a b. minus_number (calculatePointsPerPrice parseFloat b)
            (calculatePointsPerPrice parseFloat a)) (st ! listings)"])
         (simp add: sortListings_def spread_copy_def sort_in_place_def mset_array_sort bestdeal Let_def)
  next
    case highestprice
    show ?thesis
      by (rule exI[of _ "array_sort (\<lambda>a b. minus_number (getPriceValue parseFloat b)
            (getPriceValue parseFloat a)) (st ! listings)"])
         (simp add: sortListings_def spread_copy_def sort_in_place_def mset_array_sort highestprice)
  next
    case lowestprice
    show ?thesis
      by (rule exI[of _ "array_sort (\<lambda>a b. minus_number (getPriceValue parseFloat a)
            (getPriceValue parseFloat b)) (st ! listings)"])
         (simp add: sortListings_def spread_copy_def sort_in_place_def mset_array_sort lowestprice)
  next
    case default
    show ?thesis
      by (rule exI[of _ "st ! listings"])
         (simp add: sortListings_def spread_copy_def default)
  qed
qed

text \<open>
  C10: for every array of listings in the store and every \<^verbatim>\<open>sortType\<close>, \<^verbatim>\<open>sortListings\<close>
  returns a new array (a reference other than the input's) that holds the same
  listings with the same multiplicities, and every array that was in the store, the
  input among them, is as it was.
\<close>

theorem sortListings_permutation:
  assumes "listings < length st" and "sortListings parseFloat listings sortType st = (r, st')"
  shows "r \<noteq> listings \<and> r < length st' \<and> mset (st' ! r) = mset (st ! listings)
    \<and> (\<forall>a < length st. st' ! a = st ! a)"
proof -
  from sortListings_shape[of st listings parseFloat sortType] assms(2)
  obtain xs where xs: "mset xs = mset (st ! listings)" and r: "r = length st"
    and st': "st' = (st @ [st ! listings])[length st := xs]"
    by auto
  have a: "r \<noteq> listings" using r assms(1) by simp
  have b: "r < length st'" using r st' by simp
  have c: "mset (st' ! r) = mset (st ! listings)" using r st' xs by simp
  have d: "\<forall>a < length st. st' ! a = st ! a" using st' by (simp add: nth_append)
  from a b c d show ?thesis by blast
qed

lemma sortListings_lowest_example:
  "sortListings parse_two_prices 0 ''lowestprice''
     [[priced ''8'' ''2000000000000000000'', priced ''3'' ''1000000000000000000'']] =
   (1, [[priced ''8'' ''2000000000000000000'', priced ''3'' ''1000000000000000000''],
        [priced ''3'' ''1000000000000000000'', priced ''8'' ''2000000000000000000'']])"
  by (simp add: sortListings_def spread_copy_def sort_in_place_def array_sort_def getPriceValue_def
      priced_def parse_two_prices_def truthy_def divide_number_def minus_number_def positive_def)

theorem sortListings_permutation_witness:
  "(0::nat) < length [[priced ''8'' ''2000000000000000000'', priced ''3'' ''1000000000000000000'']]
   \<and> (1::nat) \<noteq> 0
   \<and> mset [priced ''3'' ''1000000000000000000'', priced ''8'' ''2000000000000000000'']
       = mset [priced ''8'' ''2000000000000000000'', priced ''3'' ''1000000000000000000'']
   \<and> snd (sortListings parse_two_prices 0 ''lowestprice''
        [[priced ''8'' ''2000000000000000000'', priced ''3'' ''1000000000000000000'']]) ! 0
       = [priced ''8'' ''2000000000000000000'', priced ''3'' ''1000000000000000000'']"
proof -
  have h: "(0::nat) < length [[priced ''8'' ''2000000000000000000'', priced ''3'' ''1000000000000000000'']]"
    by simp
  from sortListings_permutation[OF h sortListings_lowest_example] sortListings_lowest_example
  show ?thesis by simp
qed

end
